theory Spec2Isabelle
  imports Main
begin

section \<open>JavaScript values\<close>

text \<open>
  Request bodies, jsonb columns and database rows hold JavaScript values. A key that is
  absent from an object (the value \<^verbatim>\<open>undefined\<close>) is \<open>None\<close> in a map; \<open>JDate\<close> is a
  \<^verbatim>\<open>Date\<close> object, given by its clock reading. Numbers are kept as integers: the routes
  only test them for being zero or positive.
\<close>

datatype jsval =
    JNull
  | JBool bool
  | JNum int
  | JStr string
  | JArr "jsval list"
  | JObj "(string \<times> jsval) list"
  | JDate nat

text \<open>Truthiness, as \<^verbatim>\<open>||\<close> and \<^verbatim>\<open>if (x)\<close> test it: an array or object is truthy even when empty.\<close>

fun truthy :: "jsval \<Rightarrow> bool" where
  "truthy JNull = False"
| "truthy (JBool b) = b"
| "truthy (JNum n) = (n \<noteq> 0)"
| "truthy (JStr s) = (s \<noteq> [])"
| "truthy (JArr xs) = True"
| "truthy (JObj kvs) = True"
| "truthy (JDate t) = True"

text \<open>\<^verbatim>\<open>a || b\<close> on two present values.\<close>

definition jsOr :: "jsval \<Rightarrow> jsval \<Rightarrow> jsval" where
  "jsOr a b = (if truthy a then a else b)"

text \<open>\<^verbatim>\<open>a || b\<close> where \<^verbatim>\<open>a\<close> may be \<^verbatim>\<open>undefined\<close>.\<close>

definition jsOrUndef :: "jsval option \<Rightarrow> jsval \<Rightarrow> jsval" where
  "jsOrUndef a b = (case a of None \<Rightarrow> b | Some v \<Rightarrow> jsOr v b)"

type_synonym jsobject = "string \<rightharpoonup> jsval"

section \<open>The forms table (shared/schema.ts)\<close>

datatype form_col =
    FormId | Name | Description | FormType | FormUrl | Status | CreatedBy | Settings
  | Questions | Sections | PreviewQuestions | PreviewSections
  | PublishedQuestions | PublishedSections
  | LastSavedAt | LastPublishedAt | CreatedAt | UpdatedAt

text \<open>A row of the table gives every column a value (SQL NULL is \<open>JNull\<close>).\<close>

type_synonym Form = "form_col \<Rightarrow> jsval"

text \<open>\<^verbatim>\<open>Partial<InsertForm>\<close>: the columns an insert or update supplies.\<close>

type_synonym FormValues = "form_col \<rightharpoonup> jsval"

fun colKey :: "form_col \<Rightarrow> string" where
  "colKey FormId = ''id''"
| "colKey Name = ''name''"
| "colKey Description = ''description''"
| "colKey FormType = ''formType''"
| "colKey FormUrl = ''formUrl''"
| "colKey Status = ''status''"
| "colKey CreatedBy = ''createdBy''"
| "colKey Settings = ''settings''"
| "colKey Questions = ''questions''"
| "colKey Sections = ''sections''"
| "colKey PreviewQuestions = ''previewQuestions''"
| "colKey PreviewSections = ''previewSections''"
| "colKey PublishedQuestions = ''publishedQuestions''"
| "colKey PublishedSections = ''publishedSections''"
| "colKey LastSavedAt = ''lastSavedAt''"
| "colKey LastPublishedAt = ''lastPublishedAt''"
| "colKey CreatedAt = ''createdAt''"
| "colKey UpdatedAt = ''updatedAt''"

text \<open>
  What the generated zod schema accepts for a column: a \<^verbatim>\<open>varchar(...).notNull()\<close> is a
  string, a nullable \<^verbatim>\<open>varchar\<close> or \<^verbatim>\<open>text\<close> a string or null, a \<^verbatim>\<open>jsonb\<close> any JSON value,
  a nullable \<^verbatim>\<open>timestamp\<close> a Date or null.
\<close>

fun isString :: "jsval \<Rightarrow> bool" where
  "isString (JStr s) = True"
| "isString _ = False"

fun isDate :: "jsval \<Rightarrow> bool" where
  "isDate (JDate t) = True"
| "isDate _ = False"

fun validCol :: "form_col \<Rightarrow> jsval \<Rightarrow> bool" where
  "validCol FormId v = isString v"
| "validCol Name v = isString v"
| "validCol Description v = (isString v \<or> v = JNull)"
| "validCol FormType v = isString v"
| "validCol FormUrl v = (isString v \<or> v = JNull)"
| "validCol Status v = isString v"
| "validCol CreatedBy v = isString v"
| "validCol LastSavedAt v = (isDate v \<or> v = JNull)"
| "validCol LastPublishedAt v = (isDate v \<or> v = JNull)"
| "validCol CreatedAt v = (isDate v \<or> v = JNull)"
| "validCol UpdatedAt v = (isDate v \<or> v = JNull)"
| "validCol c v = (\<not> isDate v)"

text \<open>\<^verbatim>\<open>insertFormSchema = createInsertSchema(forms).omit({ id, createdAt, updatedAt })\<close>.\<close>

definition insertFormSchema :: "form_col list" where
  "insertFormSchema =
     [Name, Description, FormType, FormUrl, Status, CreatedBy, Settings, Questions, Sections,
      PreviewQuestions, PreviewSections, PublishedQuestions, PublishedSections,
      LastSavedAt, LastPublishedAt]"

text \<open>The columns an insert must supply: \<^verbatim>\<open>notNull()\<close> without a default.\<close>

definition requiredCols :: "form_col list" where
  "requiredCols = [Name, CreatedBy]"

text \<open>\<^verbatim>\<open>schema.omit({ createdBy: true })\<close>.\<close>

definition omitCreatedBy :: "form_col list \<Rightarrow> form_col list" where
  "omitCreatedBy shape = filter (\<lambda>c. c \<noteq> CreatedBy) shape"

datatype ZodError = ZodError

text \<open>
  \<^verbatim>\<open>schema.partial().parse(obj)\<close>: every key of the shape is optional, a present key must
  have a valid value, and keys outside the shape are stripped from the result.
\<close>

definition parsePartial :: "form_col list \<Rightarrow> jsobject \<Rightarrow> ZodError + FormValues" where
  "parsePartial shape obj =
     (if list_all (\<lambda>c. case obj (colKey c) of None \<Rightarrow> True | Some v \<Rightarrow> validCol c v) shape
      then Inr (\<lambda>c. if c \<in> set shape then obj (colKey c) else None)
      else Inl ZodError)"

text \<open>\<^verbatim>\<open>schema.parse(obj)\<close>: as above, and the required keys must be present.\<close>

definition parseStrict :: "form_col list \<Rightarrow> jsobject \<Rightarrow> ZodError + FormValues" where
  "parseStrict shape obj =
     (if list_all (\<lambda>c. c \<notin> set shape \<or> obj (colKey c) \<noteq> None) requiredCols
      then parsePartial shape obj
      else Inl ZodError)"

section \<open>Storage of forms (server/storage.ts)\<close>

datatype DbError = DbError

definition getFormById :: "Form list \<Rightarrow> string \<Rightarrow> Form option" where
  "getFormById store fid = find (\<lambda>f. f FormId = JStr fid) store"

definition getFormByUrl :: "Form list \<Rightarrow> string \<Rightarrow> Form option" where
  "getFormByUrl store url = find (\<lambda>f. f FormUrl = JStr url) store"

text \<open>The row an insert writes: the supplied values over the column defaults.\<close>

definition newFormRow :: "nat \<Rightarrow> string \<Rightarrow> FormValues \<Rightarrow> Form" where
  "newFormRow now newId vals =
     (\<lambda>c. case vals c of
             Some v \<Rightarrow> v
           | None \<Rightarrow>
               (if c = FormId then JStr newId
                else if c = FormType then JStr ''survey''
                else if c = Status then JStr ''draft''
                else if c = CreatedAt \<or> c = UpdatedAt then JDate now
                else JNull))"

text \<open>
  \<^verbatim>\<open>createForm\<close>: the insert throws when the primary key or the unique \<^verbatim>\<open>form_url\<close> is
  already in the table. \<open>newId\<close> is what \<^verbatim>\<open>gen_random_uuid()\<close> returns.
\<close>

definition createForm :: "nat \<Rightarrow> string \<Rightarrow> FormValues \<Rightarrow> Form list \<Rightarrow> DbError + Form \<times> Form list" where
  "createForm now newId vals store =
     (let row = newFormRow now newId vals in
      if list_ex (\<lambda>f. f FormId = row FormId) store then Inl DbError
      else if row FormUrl \<noteq> JNull \<and> list_ex (\<lambda>f. f FormUrl = row FormUrl) store then Inl DbError
      else Inr (row, store @ [row]))"

text \<open>\<^verbatim>\<open>.set({ ...updates, updatedAt: new Date() })\<close> on one row.\<close>

definition setValues :: "nat \<Rightarrow> FormValues \<Rightarrow> Form \<Rightarrow> Form" where
  "setValues now updates f =
     (\<lambda>c. if c = UpdatedAt then JDate now
          else (case updates c of Some v \<Rightarrow> v | None \<Rightarrow> f c))"

text \<open>
  \<^verbatim>\<open>updateForm\<close>: updates the rows with the id and returns the first of them; the update
  throws when it would give the row a \<^verbatim>\<open>form_url\<close> that another row has.
\<close>

definition updateForm :: "nat \<Rightarrow> string \<Rightarrow> FormValues \<Rightarrow> Form list \<Rightarrow> DbError + Form option \<times> Form list" where
  "updateForm now fid updates store =
     (if (case updates FormUrl of
            None \<Rightarrow> False
          | Some u \<Rightarrow> u \<noteq> JNull \<and> list_ex (\<lambda>f. f FormId = JStr fid) store
                      \<and> list_ex (\<lambda>f. f FormId \<noteq> JStr fid \<and> f FormUrl = u) store)
      then Inl DbError
      else
        (let store' = map (\<lambda>f. if f FormId = JStr fid then setValues now updates f else f) store
         in Inr (find (\<lambda>f. f FormId = JStr fid) store', store')))"

section \<open>Form routes (server/routes.ts)\<close>

datatype HttpError = BadRequest400 | Forbidden403 | NotFound404 | ServerError500

text \<open>\<^verbatim>\<open>const { title, ...rest } = req.body\<close> and the like: the object without the named keys.\<close>

definition without :: "jsobject \<Rightarrow> string list \<Rightarrow> jsobject" where
  "without obj ks = (\<lambda>k. if k \<in> set ks then None else obj k)"

text \<open>
  \<^verbatim>\<open>app.post('/api/forms')\<close> for the authenticated user \<open>userId\<close>. The response is the new
  row (with \<^verbatim>\<open>title\<close> added for the client).
\<close>

definition postForm :: "nat \<Rightarrow> string \<Rightarrow> string \<Rightarrow> jsobject \<Rightarrow> Form list \<Rightarrow> (HttpError + Form) \<times> Form list" where
  "postForm now newId userId body store =
     (let rest = without body [''title''];
          mappedData = (rest(''name'' := body ''title''))(''createdBy'' \<mapsto> JStr userId)
      in case parseStrict insertFormSchema mappedData of
           Inl e \<Rightarrow> (Inl BadRequest400, store)
         | Inr formData \<Rightarrow>
             (case createForm now newId formData store of
                Inl e \<Rightarrow> (Inl ServerError500, store)
              | Inr (form, store') \<Rightarrow> (Inr form, store')))"

text \<open>The tail shared by both branches of the update route: parse, update, respond.\<close>

definition parseAndUpdate :: "nat \<Rightarrow> string \<Rightarrow> jsobject \<Rightarrow> Form list \<Rightarrow> (HttpError + Form) \<times> Form list" where
  "parseAndUpdate now fid updates store =
     (case parsePartial (omitCreatedBy insertFormSchema) updates of
        Inl e \<Rightarrow> (Inl BadRequest400, store)
      | Inr parsed \<Rightarrow>
          (case updateForm now fid parsed store of
             Inl e \<Rightarrow> (Inl ServerError500, store)
           | Inr (None, store') \<Rightarrow> (Inl ServerError500, store')
           | Inr (Some form, store') \<Rightarrow> (Inr form, store')))"

definition isPublishOperation :: "jsobject \<Rightarrow> bool" where
  "isPublishOperation body = (body ''status'' = Some (JStr ''active''))"

text \<open>
  \<^verbatim>\<open>const { title, questions, sections, status, ...rest } = req.body\<close> and
  \<^verbatim>\<open>mappedData = ('title' in req.body) ? { ...rest, name: title } : rest\<close>.
\<close>

definition mappedData :: "jsobject \<Rightarrow> jsobject" where
  "mappedData body =
     (let rest = without body [''title'', ''questions'', ''sections'', ''status'']
      in case body ''title'' of Some title \<Rightarrow> rest(''name'' \<mapsto> title) | None \<Rightarrow> rest)"

text \<open>The \<^verbatim>\<open>updates\<close> object of the publish branch.\<close>

definition publishUpdates :: "nat \<Rightarrow> Form \<Rightarrow> jsobject \<Rightarrow> jsobject" where
  "publishUpdates now existingForm body =
     (mappedData body)
       (''status'' \<mapsto> JStr ''active'',
        ''publishedQuestions'' \<mapsto> jsOr (existingForm PreviewQuestions) (existingForm Questions),
        ''publishedSections'' \<mapsto> jsOr (existingForm PreviewSections) (existingForm Sections),
        ''lastPublishedAt'' \<mapsto> JDate now)"

text \<open>The \<^verbatim>\<open>updates\<close> object of the save branch.\<close>

definition saveUpdates :: "nat \<Rightarrow> Form \<Rightarrow> jsobject \<Rightarrow> jsobject" where
  "saveUpdates now existingForm body =
     (mappedData body)
       (''questions'' \<mapsto> jsOrUndef (body ''questions'') (existingForm Questions),
        ''sections'' \<mapsto> jsOrUndef (body ''sections'') (existingForm Sections),
        ''lastSavedAt'' \<mapsto> JDate now)"

text \<open>\<^verbatim>\<open>app.put('/api/forms/:id')\<close>: publish when the body's status is 'active', save otherwise.\<close>

definition putForm :: "nat \<Rightarrow> string \<Rightarrow> string \<Rightarrow> jsobject \<Rightarrow> Form list \<Rightarrow> (HttpError + Form) \<times> Form list" where
  "putForm now userId fid body store =
     (case getFormById store fid of
        None \<Rightarrow> (Inl NotFound404, store)
      | Some existingForm \<Rightarrow>
          if existingForm CreatedBy \<noteq> JStr userId then (Inl Forbidden403, store)
          else if isPublishOperation body
          then parseAndUpdate now fid (publishUpdates now existingForm body) store
          else parseAndUpdate now fid (saveUpdates now existingForm body) store)"

text \<open>The \<^verbatim>\<open>updates\<close> object of the prepare-preview route.\<close>

definition previewUpdates :: "nat \<Rightarrow> Form \<Rightarrow> jsobject" where
  "previewUpdates now existingForm =
     [''previewQuestions'' \<mapsto> existingForm Questions,
      ''previewSections'' \<mapsto> existingForm Sections,
      ''lastSavedAt'' \<mapsto> JDate now]"

text \<open>
  \<^verbatim>\<open>app.post('/api/forms/:id/prepare-preview')\<close>. Every failure after the ownership check,
  a parse error included, is answered by the route's single catch with status 500.
\<close>

definition preparePreview :: "nat \<Rightarrow> string \<Rightarrow> string \<Rightarrow> Form list \<Rightarrow> (HttpError + unit) \<times> Form list" where
  "preparePreview now userId fid store =
     (case getFormById store fid of
        None \<Rightarrow> (Inl NotFound404, store)
      | Some existingForm \<Rightarrow>
          if existingForm CreatedBy \<noteq> JStr userId then (Inl Forbidden403, store)
          else
            (case parsePartial (omitCreatedBy insertFormSchema) (previewUpdates now existingForm) of
               Inl e \<Rightarrow> (Inl ServerError500, store)
             | Inr parsed \<Rightarrow>
                 (case updateForm now fid parsed store of
                    Inl e \<Rightarrow> (Inl ServerError500, store)
                  | Inr (r, store') \<Rightarrow> (Inr (), store'))))"

section \<open>Strings\<close>

text \<open>
  Strings are byte strings here, and \<^verbatim>\<open>toLowerCase\<close> and \<^verbatim>\<open>trim\<close> are modelled on ASCII:
  the letters A to Z are lowered, and the white space trimmed is space, tab, line feed,
  vertical tab, form feed and carriage return. (JavaScript also lowers and trims
  non-ASCII code points; their bytes are left as they are.)
\<close>

definition toLowerChar :: "char \<Rightarrow> char" where
  "toLowerChar c =
     (case map_of (zip ''ABCDEFGHIJKLMNOPQRSTUVWXYZ'' ''abcdefghijklmnopqrstuvwxyz'') c of
        Some l \<Rightarrow> l
      | None \<Rightarrow> c)"

definition toLowerCase :: "string \<Rightarrow> string" where
  "toLowerCase s = map toLowerChar s"

definition isWhiteSpace :: "char \<Rightarrow> bool" where
  "isWhiteSpace c = (c \<in> set [CHR '' '', CHR 0x09, CHR 0x0A, CHR 0x0B, CHR 0x0C, CHR 0x0D])"

definition trim :: "string \<Rightarrow> string" where
  "trim s = rev (dropWhile isWhiteSpace (rev (dropWhile isWhiteSpace s)))"

section \<open>Public form URLs (client router and server endpoint)\<close>

definition RESERVED_SLUGS :: "string list" where
  "RESERVED_SLUGS =
     [''apps'', ''settings'', ''dashboards'', ''preview'', ''api'', ''assets'',
      ''vite'', ''favicon.ico'', ''login'', ''logout'', ''auth'']"

text \<open>What a route of the client renders: the not-found page or the public form page.\<close>

datatype RouteElement = NotFound | PublicForm bool

text \<open>\<^verbatim>\<open>PublicFormRoute\<close>, the component of the route \<^verbatim>\<open>/:url\<close>.\<close>

definition PublicFormRoute :: "string \<Rightarrow> RouteElement" where
  "PublicFormRoute url =
     (if toLowerCase url \<in> set RESERVED_SLUGS then NotFound else PublicForm False)"

text \<open>
  \<^verbatim>\<open>app.get('/api/public/forms/:url')\<close>, the endpoint the public form page queries. The
  answer is given here by the row found and the content snapshot chosen for it; the
  projection of the row to its public fields is left out, and so is the parsing of a
  snapshot that is stored as a string.
\<close>

definition getPublicForm :: "Form list \<Rightarrow> string \<Rightarrow> HttpError + Form \<times> jsval \<times> jsval" where
  "getPublicForm store url =
     (case getFormByUrl store url of
        None \<Rightarrow> Inl NotFound404
      | Some form \<Rightarrow>
          Inr (form,
               jsOr (form PublishedQuestions) (form Questions),
               jsOr (form PublishedSections) (form Sections)))"

text \<open>
  What a visitor of \<^verbatim>\<open>/:url\<close> ends up with: the router chooses the component, and the public
  form page shows the form its query returns, or its own not-found message when the
  query fails.
\<close>

datatype Page = NotFoundPage | FormNotFoundMessage | FormPage Form jsval jsval

definition publicPage :: "Form list \<Rightarrow> string \<Rightarrow> Page" where
  "publicPage store url =
     (case PublicFormRoute url of
        NotFound \<Rightarrow> NotFoundPage
      | PublicForm isPreview \<Rightarrow>
          (case getPublicForm store url of
             Inl e \<Rightarrow> FormNotFoundMessage
           | Inr (form, qs, secs) \<Rightarrow> FormPage form qs secs))"

section \<open>The students table and its storage\<close>

text \<open>
  The columns an insert or update of a student may supply: \<^verbatim>\<open>insertStudentSchema\<close> is the
  table without \<^verbatim>\<open>id\<close>, \<^verbatim>\<open>createdAt\<close> and \<^verbatim>\<open>updatedAt\<close>.
\<close>

datatype student_field =
    Student_BC | FullName | DateOfBirth | Gender | Level | Class | Centre
  | GuardianName | GuardianEmail | GuardianPhone | Address
  | EmergencyContact | EmergencyPhone | MedicalInfo
  | StudentStatus | AdditionalData | StudentCreatedBy

record Student =
  studentId :: string
  columns :: "student_field \<Rightarrow> jsval"
  studentCreatedAt :: nat
  studentUpdatedAt :: nat

text \<open>\<^verbatim>\<open>InsertStudent\<close> and \<^verbatim>\<open>Partial<InsertStudent>\<close>: the fields a row supplies.\<close>

type_synonym InsertStudent = "student_field \<rightharpoonup> jsval"

text \<open>
  \<^verbatim>\<open>getStudentByStudentId\<close>: the first row whose \<^verbatim>\<open>student_BC\<close> equals the argument.
\<close>

definition getStudentByStudentId :: "Student list \<Rightarrow> string \<Rightarrow> Student option" where
  "getStudentByStudentId store studentBC = find (\<lambda>s. columns s Student_BC = JStr studentBC) store"

section \<open>Identifier lookup (server/routes.ts)\<close>

record StudentSummary =
  student_BC :: jsval
  fullName :: jsval
  level :: jsval
  studentClass :: jsval

definition summary :: "Student \<Rightarrow> StudentSummary" where
  "summary student =
     \<lparr>student_BC = columns student Student_BC, fullName = columns student FullName,
      level = columns student Level, studentClass = columns student Class\<rparr>"

record LookupResult =
  foundStudents :: "StudentSummary list"
  notFoundBCNumbers :: "string list"
  notSelectedStudents :: "StudentSummary list"

text \<open>
  \<^verbatim>\<open>(settings as any).selectedRespondents || []\<close>, where \<^verbatim>\<open>settings\<close> is the form's settings
  when \<^verbatim>\<open>typeof form.settings === 'object'\<close> and \<^verbatim>\<open>{}\<close> otherwise. The value is whatever
  is stored under the key, if it is truthy: the annotation \<^verbatim>\<open>string[]\<close> of the variable checks
  nothing when the route runs. An array has no such key.
\<close>

definition selectedRespondentsOf :: "jsval \<Rightarrow> jsval" where
  "selectedRespondentsOf settings =
     (case settings of
        JObj kvs \<Rightarrow> jsOrUndef (map_of kvs ''selectedRespondents'') (JArr [])
      | _ \<Rightarrow> JArr [])"

text \<open>
  \<^verbatim>\<open>x > 0\<close> for a stored value. A number is compared as it is, \<^verbatim>\<open>true\<close> counts as 1 and
  \<^verbatim>\<open>null\<close> as 0. A string, an array or an object is first converted to a floating-point
  number by JavaScript; what the comparison gives for these is the parameter \<open>converted\<close>,
  of which nothing is assumed.
\<close>

definition greaterThanZero :: "(jsval \<Rightarrow> bool) \<Rightarrow> jsval \<Rightarrow> bool" where
  "greaterThanZero converted v =
     (case v of
        JNum n \<Rightarrow> n > 0
      | JBool b \<Rightarrow> b
      | JNull \<Rightarrow> False
      | JDate t \<Rightarrow> t > 0
      | _ \<Rightarrow> converted v)"

text \<open>
  \<^verbatim>\<open>selectedRespondents.length > 0\<close>: an array or a string has a length, positive when it is
  not empty; an object has the length stored under that key, if any; a number or a boolean
  has none, and \<^verbatim>\<open>undefined > 0\<close> is false.
\<close>

definition lengthPositive :: "(jsval \<Rightarrow> bool) \<Rightarrow> jsval \<Rightarrow> bool" where
  "lengthPositive converted v =
     (case v of
        JArr xs \<Rightarrow> xs \<noteq> []
      | JStr s \<Rightarrow> s \<noteq> []
      | JObj kvs \<Rightarrow>
          (case map_of kvs ''length'' of Some l \<Rightarrow> greaterThanZero converted l | None \<Rightarrow> False)
      | _ \<Rightarrow> False)"

text \<open>\<^verbatim>\<open>s.includes(p)\<close> on strings: \<open>p\<close> occurs in \<open>s\<close>.\<close>

definition isSubstring :: "string \<Rightarrow> string \<Rightarrow> bool" where
  "isSubstring p s = list_ex (\<lambda>i. take (length p) (drop i s) = p) [0..<Suc (length s)]"

text \<open>
  \<^verbatim>\<open>selectedRespondents.includes(trimmedBC)\<close>: an array includes the identifier when one of
  its elements is that string, a string when the identifier occurs in it. No other value
  has the method, and the call throws a \<^verbatim>\<open>TypeError\<close> (\<open>None\<close>).
\<close>

definition includesBC :: "jsval \<Rightarrow> string \<Rightarrow> bool option" where
  "includesBC v t =
     (case v of
        JArr xs \<Rightarrow> Some (JStr t \<in> set xs)
      | JStr s \<Rightarrow> Some (isSubstring t s)
      | _ \<Rightarrow> None)"

text \<open>\<^verbatim>\<open>form.formType || 'general'\<close>.\<close>

definition formTypeOrGeneral :: "Form \<Rightarrow> string" where
  "formTypeOrGeneral form =
     (case form FormType of JStr s \<Rightarrow> (if s = [] then ''general'' else s) | _ \<Rightarrow> ''general'')"

text \<open>
  The allow-list and form type the route works with: the defaults \<^verbatim>\<open>[]\<close> and 'general'
  unless a \<^verbatim>\<open>formId\<close> is given, the form exists and its settings are set. The route
  reads the form with \<^verbatim>\<open>storage.getForm\<close>, the same query as \<^verbatim>\<open>getFormById\<close>; the ids of
  forms are strings, so a \<^verbatim>\<open>formId\<close> of another type names no form.
\<close>

definition lookupRestriction :: "Form list \<Rightarrow> jsval option \<Rightarrow> jsval \<times> string" where
  "lookupRestriction forms formId =
     (case formId of
        Some (JStr fid) \<Rightarrow>
          (if fid = [] then (JArr [], ''general'')
           else (case getFormById forms fid of
                   Some form \<Rightarrow>
                     (if truthy (form Settings)
                      then (selectedRespondentsOf (form Settings), formTypeOrGeneral form)
                      else (JArr [], ''general''))
                 | None \<Rightarrow> (JArr [], ''general'')))
      | _ \<Rightarrow> (JArr [], ''general''))"

text \<open>
  The body of the loop for one submitted identifier; \<open>None\<close> when the call of
  \<^verbatim>\<open>includes\<close> throws.
\<close>

definition lookupStep ::
  "(jsval \<Rightarrow> bool) \<Rightarrow> Student list \<Rightarrow> jsval \<Rightarrow> string \<Rightarrow> string \<Rightarrow> LookupResult \<Rightarrow> LookupResult option" where
  "lookupStep converted students selectedRespondents formType bcNumber acc =
     (let trimmedBC = trim bcNumber in
      if trimmedBC = [] then Some acc
      else
        (case getStudentByStudentId students trimmedBC of
           Some student \<Rightarrow>
             (if formType = ''parents_survey'' \<and> lengthPositive converted selectedRespondents
              then (case includesBC selectedRespondents trimmedBC of
                      None \<Rightarrow> None
                    | Some listed \<Rightarrow>
                        (if listed
                         then Some (acc\<lparr>foundStudents := foundStudents acc @ [summary student]\<rparr>)
                         else Some (acc\<lparr>notSelectedStudents :=
                                          notSelectedStudents acc @ [summary student]\<rparr>)))
              else Some (acc\<lparr>foundStudents := foundStudents acc @ [summary student]\<rparr>))
         | None \<Rightarrow> Some (acc\<lparr>notFoundBCNumbers := notFoundBCNumbers acc @ [trimmedBC]\<rparr>)))"

text \<open>
  The loop over \<^verbatim>\<open>bcNumbers\<close>. An element that is not a string has no \<^verbatim>\<open>trim\<close>: the
  call throws. Whatever throws in the loop ends the request (\<open>None\<close>).
\<close>

fun lookupLoop ::
  "(jsval \<Rightarrow> bool) \<Rightarrow> Student list \<Rightarrow> jsval \<Rightarrow> string \<Rightarrow> jsval list \<Rightarrow> LookupResult \<Rightarrow> LookupResult option" where
  "lookupLoop converted students sel formType [] acc = Some acc"
| "lookupLoop converted students sel formType (JStr bcNumber # rest) acc =
     (case lookupStep converted students sel formType bcNumber acc of
        None \<Rightarrow> None
      | Some acc' \<Rightarrow> lookupLoop converted students sel formType rest acc')"
| "lookupLoop converted students sel formType (v # rest) acc = None"

text \<open>
  \<^verbatim>\<open>app.post('/api/public/students/lookup-bc')\<close>. What is thrown in the loop is caught by
  the route and answered with status 500. In the response \<^verbatim>\<open>notSelectedStudents\<close> is left
  out when it is empty.
\<close>

definition lookupBc :: "(jsval \<Rightarrow> bool) \<Rightarrow> Form list \<Rightarrow> Student list \<Rightarrow> jsobject \<Rightarrow> HttpError + LookupResult" where
  "lookupBc converted forms students body =
     (case body ''bcNumbers'' of
        Some (JArr bcNumbers) \<Rightarrow>
          (case lookupRestriction forms (body ''formId'') of
             (selectedRespondents, formType) \<Rightarrow>
               (case lookupLoop converted students selectedRespondents formType bcNumbers
                       \<lparr>foundStudents = [], notFoundBCNumbers = [], notSelectedStudents = []\<rparr> of
                  None \<Rightarrow> Inl ServerError500
                | Some result \<Rightarrow> Inr result))
      | _ \<Rightarrow> Inl BadRequest400)"

section \<open>Bulk import of students (server/storage.ts, server/routes.ts)\<close>



text \<open>\<^verbatim>\<open>.set(updates)\<close> on one row: the supplied fields are overwritten, the others kept.\<close>

definition setStudentValues :: "InsertStudent \<Rightarrow> Student \<Rightarrow> Student" where
  "setStudentValues updates s =
     s\<lparr>columns := (\<lambda>c. case updates c of Some v \<Rightarrow> v | None \<Rightarrow> columns s c)\<rparr>"


















section \<open>Parsing a student sheet (client StudentCSVUploader)\<close>

text \<open>
  \<^verbatim>\<open>rowData: Partial<InsertStudent>\<close> as the parser fills it: the typed fields it sets, all
  strings, and the additional-data object, which is absent until the first header is
  looked at.
\<close>

record RowData =
  rowFields :: "student_field \<rightharpoonup> string"
  additionalData :: "(string \<rightharpoonup> string) option"

record ParsedStudentRow =
  index :: nat
  rowData :: RowData
  valid :: bool
  errors :: "string list"

definition setField :: "student_field \<Rightarrow> string \<Rightarrow> RowData \<Rightarrow> RowData" where
  "setField f v rd = rd\<lparr>rowFields := (rowFields rd)(f \<mapsto> v)\<rparr>"

text \<open>\<^verbatim>\<open>(rowData.additionalData as any)[key] = value\<close>.\<close>

definition setAdditional :: "string \<Rightarrow> string \<Rightarrow> RowData \<Rightarrow> RowData" where
  "setAdditional k v rd =
     rd\<lparr>additionalData :=
          Some ((case additionalData rd of None \<Rightarrow> Map.empty | Some m \<Rightarrow> m)(k \<mapsto> v))\<rparr>"

text \<open>\<^verbatim>\<open>!rowData.f\<close>: the field is unset or empty.\<close>

definition fieldUnset :: "student_field \<Rightarrow> RowData \<Rightarrow> bool" where
  "fieldUnset f rd = (case rowFields rd f of None \<Rightarrow> True | Some v \<Rightarrow> v = [])"

definition additionalUnset :: "string \<Rightarrow> RowData \<Rightarrow> bool" where
  "additionalUnset k rd =
     (case additionalData rd of
        None \<Rightarrow> True
      | Some m \<Rightarrow> (case m k of None \<Rightarrow> True | Some v \<Rightarrow> v = []))"

text \<open>\<^verbatim>\<open>row[colIndex] ? String(row[colIndex]).trim() : ''\<close>, the cells being strings.\<close>

definition cellValue :: "string list \<Rightarrow> nat \<Rightarrow> string" where
  "cellValue row colIndex = (if colIndex < length row then trim (row ! colIndex) else [])"

text \<open>The \<^verbatim>\<open>switch (normalizedHeader)\<close> of the first pass over the headers.\<close>

definition mapHeader :: "string \<Rightarrow> string \<Rightarrow> RowData \<Rightarrow> RowData" where
  "mapHeader header val rd0 =
     (let normalizedHeader = toLowerCase header;
          rd = (case additionalData rd0 of
                  None \<Rightarrow> rd0\<lparr>additionalData := Some Map.empty\<rparr>
                | Some m \<Rightarrow> rd0)
      in
      if normalizedHeader \<in> set [''bc no'', ''bc no.'', ''bc_no'', ''bc_no.'', ''bcno'', ''bcno.'',
                                  ''studentid'', ''student_id'', ''id'']
      then (if val \<noteq> [] then setAdditional ''bcNo'' val (setField Student_BC val rd) else rd)
      else if normalizedHeader \<in> set [''firstname'', ''first_name'', ''lastname'', ''last_name'']
      then (if val \<noteq> [] then setAdditional header val rd else rd)
      else if normalizedHeader \<in> set [''center'', ''centre'', ''learning_center'', ''learning center'',
                                       ''branch'', ''campus'', ''location'', ''center name'',
                                       ''centre name'']
      then (if val \<noteq> [] \<and> fieldUnset Centre rd
            then setAdditional ''center'' val (setField Centre val rd) else rd)
      else if normalizedHeader \<in> set [''level'', ''std'', ''standard'', ''year'', ''year_level'',
                                       ''student_level'', ''class level'', ''grade level'']
      then (if val \<noteq> [] \<and> fieldUnset Level rd then setField Level val rd else rd)
      else if normalizedHeader \<in> set [''session'', ''timing'', ''time_slot'', ''time slot'',
                                       ''session time'', ''schedule'', ''batch'']
      then (if val \<noteq> [] \<and> additionalUnset ''session'' rd
            then setAdditional ''session_info'' val (setAdditional ''session'' val rd) else rd)
      else if normalizedHeader \<in> set [''admission date'', ''admission_date'', ''admissiondate'']
      then (if val \<noteq> [] then setAdditional ''admissionDate'' val rd else rd)
      else if normalizedHeader \<in> set [''start date'', ''start_date'', ''startdate'']
      then (if val \<noteq> [] then setAdditional ''startDate'' val rd else rd)
      else if normalizedHeader \<in> set [''end date'', ''end_date'', ''enddate'']
      then (if val \<noteq> [] then setAdditional ''endDate'' val rd else rd)
      else if normalizedHeader \<in> set [''birthdate'', ''birth_date'', ''date_of_birth'',
                                       ''dateofbirth'', ''dob'']
      then (if val \<noteq> [] then setField DateOfBirth val rd else rd)
      else if normalizedHeader \<in> set [''enrolment status'', ''enrolment_status'',
                                       ''enrollment_status'', ''enrollment'', ''status'']
      then (if val \<noteq> []
            then setAdditional ''enrollment'' val (setField StudentStatus (toLowerCase val) rd)
            else rd)
      else if normalizedHeader \<in> set [''fullname'', ''full_name'', ''name'']
      then (if val \<noteq> [] then setField FullName val rd else rd)
      else if normalizedHeader \<in> set [''email'', ''email_address'', ''phonenumber'',
                                       ''phone_number'', ''phone'']
      then (if val \<noteq> [] then setAdditional header val rd else rd)
      else if normalizedHeader = ''gender''
      then (if val \<noteq> [] then setField Gender val rd else rd)
      else if normalizedHeader \<in> set [''grade'', ''class_level'']
      then (if val \<noteq> [] then setField Level val rd else rd)
      else if normalizedHeader \<in> set [''class'', ''classroom'']
      then (if val \<noteq> [] then setField Class val rd else rd)
      else if normalizedHeader = ''section''
      then (if val \<noteq> [] then setAdditional ''section'' val rd else rd)
      else if normalizedHeader \<in> set [''guardianname'', ''guardian_name'', ''parent_name'']
      then (if val \<noteq> [] then setField GuardianName val rd else rd)
      else if normalizedHeader \<in> set [''guardianemail'', ''guardian_email'', ''parent_email'']
      then (if val \<noteq> [] then setField GuardianEmail val rd else rd)
      else if normalizedHeader \<in> set [''guardianphone'', ''guardian_phone'', ''parent_phone'']
      then (if val \<noteq> [] then setField GuardianPhone val rd else rd)
      else if normalizedHeader = ''address''
      then (if val \<noteq> [] then setField Address val rd else rd)
      else if normalizedHeader \<in> set [''emergencycontact'', ''emergency_contact'']
      then (if val \<noteq> [] then setField EmergencyContact val rd else rd)
      else if normalizedHeader \<in> set [''emergencyphone'', ''emergency_phone'']
      then (if val \<noteq> [] then setField EmergencyPhone val rd else rd)
      else if normalizedHeader \<in> set [''medicalinfo'', ''medical_info'', ''medical_information'']
      then (if val \<noteq> [] then setField MedicalInfo val rd else rd)
      else rd)"

definition knownFields :: "string list" where
  "knownFields =
     [''bc no'', ''bc_no'', ''bcno'', ''studentid'', ''student_id'', ''id'',
      ''firstname'', ''first_name'', ''lastname'', ''last_name'',
      ''fullname'', ''full_name'', ''name'', ''center'', ''centre'', ''learning_center'',
      ''learning center'', ''branch'', ''campus'', ''location'', ''center name'', ''centre name'',
      ''level'', ''std'', ''standard'', ''year'', ''year_level'', ''student_level'',
      ''class level'', ''grade level'',
      ''session'', ''timing'', ''time_slot'', ''time slot'', ''session time'', ''schedule'', ''batch'',
      ''admission date'', ''admission_date'', ''admissiondate'',
      ''start date'', ''start_date'', ''startdate'',
      ''end date'', ''end_date'', ''enddate'',
      ''birthdate'', ''birth_date'', ''date_of_birth'', ''dateofbirth'', ''dob'',
      ''enrolment status'', ''enrolment_status'', ''enrollment_status'', ''enrollment'', ''status'',
      ''email'', ''email_address'', ''phonenumber'', ''phone_number'', ''phone'',
      ''gender'', ''grade'', ''class_level'', ''class'', ''classroom'', ''section'',
      ''guardianname'', ''guardian_name'', ''parent_name'',
      ''guardianemail'', ''guardian_email'', ''parent_email'',
      ''guardianphone'', ''guardian_phone'', ''parent_phone'',
      ''address'', ''emergencycontact'', ''emergency_contact'',
      ''emergencyphone'', ''emergency_phone'', ''medicalinfo'', ''medical_info'',
      ''medical_information'']"

definition isKnownField :: "string \<Rightarrow> bool" where
  "isKnownField header = (toLowerCase header \<in> set knownFields)"

text \<open>The second pass: a header that is no known field is stored under its own text.\<close>

definition storeUnmapped :: "string \<Rightarrow> string \<Rightarrow> RowData \<Rightarrow> RowData" where
  "storeUnmapped header val rd =
     (if val \<noteq> [] \<and> header \<noteq> [] \<and> \<not> isKnownField (toLowerCase header)
      then setAdditional header val rd
      else rd)"

text \<open>
  The regular expression \<^verbatim>\<open>/^[^\s@]+@[^\s@]+\.[^\s@]+$/\<close>: no white space, exactly one at
  sign with something before it, and after it a dot that is neither first nor last.
\<close>

definition emailRegexTest :: "string \<Rightarrow> bool" where
  "emailRegexTest s =
     (let localPart = takeWhile (\<lambda>c. c \<noteq> CHR ''@'') s;
          domain = drop 1 (dropWhile (\<lambda>c. c \<noteq> CHR ''@'') s)
      in CHR ''@'' \<in> set s \<and> localPart \<noteq> [] \<and> CHR ''@'' \<notin> set domain
         \<and> \<not> list_ex isWhiteSpace s
         \<and> list_ex (\<lambda>i. domain ! i = CHR ''.'') [1..<length domain - 1])"

definition validateStudentRow :: "RowData \<Rightarrow> string list" where
  "validateStudentRow rd =
     (if (case rowFields rd Student_BC of None \<Rightarrow> True | Some bc \<Rightarrow> trim bc = [])
      then [''BC No is required''] else [])
     @ (case rowFields rd GuardianEmail of
          None \<Rightarrow> []
        | Some e \<Rightarrow>
            (if trim e \<noteq> [] \<and> \<not> emailRegexTest (trim e)
             then [''Invalid guardian email format''] else []))"

text \<open>One data row: both passes over the headers, then the validation.\<close>

definition parseRow :: "string list \<Rightarrow> nat \<Rightarrow> string list \<Rightarrow> ParsedStudentRow" where
  "parseRow headers i row =
     (let cells = map (\<lambda>(colIndex, header). (header, cellValue row colIndex)) (enumerate 0 headers);
          mapped = fold (\<lambda>(header, val). mapHeader header val) cells
                     \<lparr>rowFields = Map.empty, additionalData = None\<rparr>;
          rd = fold (\<lambda>(header, val). storeUnmapped header val) cells mapped;
          rowErrors = validateStudentRow rd
      in \<lparr>index = i + 2, rowData = rd, valid = (rowErrors = []), errors = rowErrors\<rparr>)"

text \<open>
  The spellings of the required header \<^verbatim>\<open>BC No\<close> that are accepted: its lower case, that
  with the space replaced by an underscore or removed, and the listed ones.
\<close>

definition requiredHeaderVariants :: "string list" where
  "requiredHeaderVariants =
     [''bc no'', ''bc_no'', ''bcno'', ''bc no.'', ''bc_no'', ''bc_no.'', ''bcno'', ''bcno.'',
      ''student_id'', ''studentid'', ''id'']"

text \<open>A row is skipped when every cell of it is empty or blank.\<close>

definition blankRow :: "string list \<Rightarrow> bool" where
  "blankRow row = list_all (\<lambda>cell. cell = [] \<or> trim cell = []) row"

text \<open>
  \<^verbatim>\<open>parseDataRows\<close>: \<open>Inl\<close> the missing required headers, or \<open>Inr\<close> the parsed rows
  (\<^verbatim>\<open>setParsedData\<close>). The validation errors shown are those of the rows.
\<close>

definition parseDataRows :: "string list \<Rightarrow> string list list \<Rightarrow> string list + ParsedStudentRow list" where
  "parseDataRows headers dataRows =
     (if \<not> list_ex (\<lambda>variant. variant \<in> set (map toLowerCase headers)) requiredHeaderVariants
      then Inl [''BC No'']
      else Inr (map (\<lambda>(i, row). parseRow headers i row)
                  (filter (\<lambda>(i, row). \<not> blankRow row) (enumerate 0 dataRows))))"

section \<open>The form builder: questions and sections (client pages/FormBuilder.tsx)\<close>

record Question =
  questionId :: string
  questionNo :: int
  questionType :: string
  questionText :: string
  required :: bool
  options :: "string list option"
  scale :: "int option"
  sectionId :: "string option"

record Section =
  secId :: string
  title :: string
  secName :: "string option"
  secOrder :: "int option"

text \<open>\<^verbatim>\<open>array.findIndex(p)\<close>, with \<open>None\<close> for \<^verbatim>\<open>-1\<close>.\<close>

fun findIndex :: "('a \<Rightarrow> bool) \<Rightarrow> 'a list \<Rightarrow> nat option" where
  "findIndex p [] = None"
| "findIndex p (x # xs) = (if p x then Some 0 else map_option Suc (findIndex p xs))"

text \<open>\<^verbatim>\<open>section.order || 0\<close>, the key the sections are sorted by.\<close>

definition orderOrZero :: "Section \<Rightarrow> int" where
  "orderOrZero s = (case secOrder s of None \<Rightarrow> 0 | Some n \<Rightarrow> n)"

text \<open>\<^verbatim>\<open>!q.sectionId\<close>: the section id is missing or empty.\<close>

definition noSectionId :: "Question \<Rightarrow> bool" where
  "noSectionId q = (case sectionId q of None \<Rightarrow> True | Some s \<Rightarrow> s = [])"

text \<open>
  \<^verbatim>\<open>q.sectionId === section.id || (!q.sectionId && section.id === 'default')\<close>, the filter
  of \<^verbatim>\<open>renumberAllQuestions\<close> and of \<^verbatim>\<open>getQuestionsBySection\<close>.
\<close>

definition inSection :: "string \<Rightarrow> Question \<Rightarrow> bool" where
  "inSection sectionKey q =
     (sectionId q = Some sectionKey \<or> (noSectionId q \<and> sectionKey = ''default''))"

record RenumberState =
  currentNumber :: int
  renumberedQuestions :: "Question list"
  processedQuestionIds :: "string set"

text \<open>
  \<^verbatim>\<open>renumberedQuestions[questionIndex] = { ...renumberedQuestions[questionIndex], questionNo:
  currentNumber++ }; processedQuestionIds.add(id)\<close>.
\<close>

definition assignNumber :: "nat \<Rightarrow> string \<Rightarrow> RenumberState \<Rightarrow> RenumberState" where
  "assignNumber questionIndex qid st =
     \<lparr>currentNumber = currentNumber st + 1,
      renumberedQuestions =
        (renumberedQuestions st)
          [questionIndex := (renumberedQuestions st ! questionIndex)\<lparr>questionNo := currentNumber st\<rparr>],
      processedQuestionIds = insert qid (processedQuestionIds st)\<rparr>"

text \<open>The body of the loop over the questions of a section.\<close>

definition numberSectionQuestion :: "Question \<Rightarrow> RenumberState \<Rightarrow> RenumberState" where
  "numberSectionQuestion sectionQuestion st =
     (case findIndex (\<lambda>q. questionId q = questionId sectionQuestion) (renumberedQuestions st) of
        Some questionIndex \<Rightarrow>
          (if questionId sectionQuestion \<notin> processedQuestionIds st
           then assignNumber questionIndex (questionId sectionQuestion) st
           else st)
      | None \<Rightarrow> st)"

text \<open>The body of the loop over the questions not numbered yet.\<close>

definition numberRemainingQuestion :: "Question \<Rightarrow> RenumberState \<Rightarrow> RenumberState" where
  "numberRemainingQuestion q st =
     (if questionId q \<notin> processedQuestionIds st
      then (case findIndex (\<lambda>r. questionId r = questionId q) (renumberedQuestions st) of
              Some questionIndex \<Rightarrow> assignNumber questionIndex (questionId q) st
            | None \<Rightarrow> st)
      else st)"

text \<open>
  \<^verbatim>\<open>renumberAllQuestions\<close>, for the sections of the builder's state. The comparator of the
  sort is the difference of the keys, and JavaScript's sort is stable.
\<close>

definition renumberAllQuestions :: "Section list \<Rightarrow> Question list \<Rightarrow> Question list" where
  "renumberAllQuestions sections questionList =
     (let st0 = \<lparr>currentNumber = 1, renumberedQuestions = questionList,
                 processedQuestionIds = {}\<rparr>;
          st1 = (if sections \<noteq> []
                 then fold (\<lambda>section st.
                              fold numberSectionQuestion
                                (filter (inSection (secId section)) questionList) st)
                        (sort_key orderOrZero sections) st0
                 else st0);
          st2 = fold numberRemainingQuestion questionList st1
      in renumberedQuestions st2)"

subsection \<open>Adding and updating questions\<close>

definition slsOptions :: "string list" where
  "slsOptions = [''Strongly Agree'', ''Agree'', ''Disagree'', ''Strongly Disagree'']"

record BuilderState =
  sections :: "Section list"
  questions :: "Question list"

text \<open>
  \<^verbatim>\<open>addQuestion(type, targetSectionId)\<close>; \<open>newId\<close> is \<^verbatim>\<open>Date.now().toString()\<close>. A missing
  or empty type gives a text question, a missing or empty target the first section.
\<close>

definition addQuestion :: "string \<Rightarrow> string option \<Rightarrow> string option \<Rightarrow> BuilderState \<Rightarrow> BuilderState" where
  "addQuestion newId type targetSectionId st =
     (let sectionKey =
            (case targetSectionId of
               Some t \<Rightarrow> (if t \<noteq> [] then t
                          else (case sections st of s # ss \<Rightarrow> (if secId s \<noteq> [] then secId s else ''default'')
                                | [] \<Rightarrow> ''default''))
             | None \<Rightarrow> (case sections st of s # ss \<Rightarrow> (if secId s \<noteq> [] then secId s else ''default'')
                        | [] \<Rightarrow> ''default''));
          newQuestion =
            \<lparr>questionId = newId,
             questionNo = int (length (questions st)) + 1,
             questionType = (case type of Some t \<Rightarrow> (if t \<noteq> [] then t else ''text'') | None \<Rightarrow> ''text''),
             questionText = [],
             required = (type = Some ''sls''),
             options =
               (if type \<in> {Some ''multipleChoice'', Some ''checkbox'', Some ''radio'', Some ''select''}
                then Some [''Option 1'', ''Option 2'']
                else if type = Some ''sls'' then Some slsOptions
                else None),
             scale = (if type = Some ''rating'' then Some 5 else None),
             sectionId = Some sectionKey\<rparr>
      in st\<lparr>questions := renumberAllQuestions (sections st) (questions st @ [newQuestion])\<rparr>)"

text \<open>The field and value of an \<^verbatim>\<open>updateQuestion(id, field, value)\<close> call.\<close>

datatype FieldUpdate =
    SetQuestionId string
  | SetQuestionNo int
  | SetType string
  | SetQuestionText string
  | SetRequired bool
  | SetOptions "string list option"
  | SetScale "int option"
  | SetSectionId "string option"

text \<open>\<^verbatim>\<open>{ ...q, [field]: value }\<close>.\<close>

fun setQuestionField :: "FieldUpdate \<Rightarrow> Question \<Rightarrow> Question" where
  "setQuestionField (SetQuestionId v) q = q\<lparr>questionId := v\<rparr>"
| "setQuestionField (SetQuestionNo v) q = q\<lparr>questionNo := v\<rparr>"
| "setQuestionField (SetType v) q = q\<lparr>questionType := v\<rparr>"
| "setQuestionField (SetQuestionText v) q = q\<lparr>questionText := v\<rparr>"
| "setQuestionField (SetRequired v) q = q\<lparr>required := v\<rparr>"
| "setQuestionField (SetOptions v) q = q\<lparr>options := v\<rparr>"
| "setQuestionField (SetScale v) q = q\<lparr>scale := v\<rparr>"
| "setQuestionField (SetSectionId v) q = q\<lparr>sectionId := v\<rparr>"

fun isSetRequired :: "FieldUpdate \<Rightarrow> bool" where
  "isSetRequired (SetRequired v) = True"
| "isSetRequired u = False"

text \<open>The function mapped over the questions by \<^verbatim>\<open>updateQuestion\<close>.\<close>

definition updatedQuestion :: "string \<Rightarrow> FieldUpdate \<Rightarrow> Question \<Rightarrow> Question" where
  "updatedQuestion qid u q =
     (if questionId q = qid
      then
        (let updated = setQuestionField u q;
             updated1 = (if u = SetType ''sls''
                         then updated\<lparr>required := True, options := Some slsOptions\<rparr>
                         else updated);
             updated2 = (if isSetRequired u \<and> questionType q = ''sls''
                         then updated1\<lparr>required := True\<rparr>
                         else updated1)
         in updated2)
      else q)"

definition updateQuestion :: "string \<Rightarrow> FieldUpdate \<Rightarrow> BuilderState \<Rightarrow> BuilderState" where
  "updateQuestion qid u st = st\<lparr>questions := map (updatedQuestion qid u) (questions st)\<rparr>"


text \<open>\<^verbatim>\<open>options.filter((_, i) => i !== optionIndex)\<close>.\<close>

definition removeAt :: "nat \<Rightarrow> 'a list \<Rightarrow> 'a list" where
  "removeAt i xs = take i xs @ drop (Suc i) xs"

text \<open>The decimal digits of a number, for the label of a new option.\<close>

fun digits :: "nat \<Rightarrow> nat \<Rightarrow> string" where
  "digits 0 n = []"
| "digits (Suc fuel) n =
     (if n < 10 then [char_of (48 + n)] else digits fuel (n div 10) @ [char_of (48 + n mod 10)])"




text \<open>The questions of a state are those of \<open>qs\<close> up to their numbers.\<close>

definition framed :: "Question list \<Rightarrow> RenumberState \<Rightarrow> bool" where
  "framed qs st = (map (questionNo_update (\<lambda>n. 0)) (renumberedQuestions st)
                     = map (questionNo_update (\<lambda>n. 0)) qs)"


subsection \<open>The numbering the renumbering is to produce\<close>

text \<open>
  The questions in the order the two loops of the renumbering visit them: section by
  section in ascending order, then the whole list.
\<close>

definition visitSequence :: "Section list \<Rightarrow> Question list \<Rightarrow> Question list" where
  "visitSequence secs qs =
     concat (map (\<lambda>s. filter (inSection (secId s)) qs) (sort_key orderOrZero secs)) @ qs"

text \<open>A list without its repetitions, each element at its first place.\<close>

definition firstSeen :: "'a list \<Rightarrow> 'a list" where
  "firstSeen xs = fold (\<lambda>x acc. if x \<in> set acc then acc else acc @ [x]) xs []"

text \<open>The ids of the questions in the order they are numbered.\<close>

definition numberingOrder :: "Section list \<Rightarrow> Question list \<Rightarrow> string list" where
  "numberingOrder secs qs = firstSeen (map questionId (visitSequence secs qs))"

text \<open>
  The order stated by the specification: the sections sorted by their order, each with its
  questions in their relative order, then the questions that are in no section.
\<close>

definition specOrder :: "Section list \<Rightarrow> Question list \<Rightarrow> Question list" where
  "specOrder secs qs =
     concat (map (\<lambda>s. filter (inSection (secId s)) qs) (sort_key orderOrZero secs))
     @ filter (\<lambda>q. \<not> list_ex (\<lambda>s. inSection (secId s) q) secs) qs"


text \<open>The list the renumbering has built once the ids in \<open>ord\<close> are numbered, in that order.\<close>

definition numbered :: "string list \<Rightarrow> Question list \<Rightarrow> Question list" where
  "numbered ord qs =
     map (\<lambda>q. case findIndex (\<lambda>y. y = questionId q) ord of
                 Some k \<Rightarrow> q\<lparr>questionNo := 1 + int k\<rparr>
               | None \<Rightarrow> q) qs"

text \<open>The place of an element in a list, counted from 0.\<close>

definition position :: "'a \<Rightarrow> 'a list \<Rightarrow> nat" where
  "position x xs = (case findIndex (\<lambda>y. y = x) xs of Some k \<Rightarrow> k | None \<Rightarrow> 0)"

text \<open>No question belongs to two sections of the list.\<close>

definition sectionsDisjoint :: "Section list \<Rightarrow> Question list \<Rightarrow> bool" where
  "sectionsDisjoint secs qs =
     list_all (\<lambda>q. length (filter (\<lambda>s. inSection (secId s) q) secs) \<le> 1) qs"

subsection \<open>The editing operations of the builder\<close>

text \<open>The state of a new builder: \<^verbatim>\<open>useState\<close> of the questions and of the sections.\<close>

definition defaultSection :: Section where
  "defaultSection = \<lparr>secId = ''default'', title = ''Section 1'', secName = Some [], secOrder = Some 0\<rparr>"

definition initialBuilder :: BuilderState where
  "initialBuilder = \<lparr>sections = [defaultSection], questions = []\<rparr>"

text \<open>\<^verbatim>\<open>setQuestionsRenumbered\<close>: the renumbering reads the sections of the current render.\<close>

definition setQuestionsRenumbered :: "Question list \<Rightarrow> BuilderState \<Rightarrow> BuilderState" where
  "setQuestionsRenumbered newQuestions st =
     st\<lparr>questions := renumberAllQuestions (sections st) newQuestions\<rparr>"

text \<open>
  The effect on \<^verbatim>\<open>[sections]\<close>, which React runs after a render in which the section list
  is a new array.
\<close>

definition sectionsEffect :: "BuilderState \<Rightarrow> BuilderState" where
  "sectionsEffect st =
     (if sections st \<noteq> [] \<and> questions st \<noteq> []
      then setQuestionsRenumbered (questions st) st
      else st)"

text \<open>\<^verbatim>\<open>setSections(newSections)\<close> and the effect that follows it.\<close>

definition setSections :: "Section list \<Rightarrow> BuilderState \<Rightarrow> BuilderState" where
  "setSections newSections st = sectionsEffect (st\<lparr>sections := newSections\<rparr>)"

definition deleteQuestion :: "string \<Rightarrow> BuilderState \<Rightarrow> BuilderState" where
  "deleteQuestion qid st =
     setQuestionsRenumbered (filter (\<lambda>q. questionId q \<noteq> qid) (questions st)) st"

text \<open>
  \<^verbatim>\<open>copyQuestion(id)\<close>; \<open>newId\<close> is \<^verbatim>\<open>Date.now().toString()\<close>. The copy is spliced in
  behind the original.
\<close>

definition copyQuestion :: "string \<Rightarrow> string \<Rightarrow> BuilderState \<Rightarrow> BuilderState" where
  "copyQuestion newId qid st =
     (case find (\<lambda>q. questionId q = qid) (questions st) of
        None \<Rightarrow> st
      | Some questionToCopy \<Rightarrow>
          (let newQuestion = questionToCopy
                 \<lparr>questionId := newId, questionText := questionText questionToCopy @ '' (Copy)''\<rparr>;
               at = (case findIndex (\<lambda>q. questionId q = qid) (questions st) of
                       Some questionIndex \<Rightarrow> questionIndex + 1
                     | None \<Rightarrow> 0);
               newQuestions = take at (questions st) @ [newQuestion] @ drop at (questions st)
           in setQuestionsRenumbered newQuestions st))"

text \<open>\<^verbatim>\<open>addSection()\<close>; \<open>newId\<close> is \<^verbatim>\<open>Date.now().toString()\<close>.\<close>

definition addSection :: "string \<Rightarrow> BuilderState \<Rightarrow> BuilderState" where
  "addSection newId st =
     (let n = length (sections st);
          newSection = \<lparr>secId = newId, title = ''Section '' @ digits (Suc n) (Suc n),
                        secName = Some [], secOrder = Some (int n)\<rparr>
      in setSections (sections st @ [newSection]) st)"

text \<open>
  \<^verbatim>\<open>updateSection(id, field, value)\<close> for the two text fields of a section; the one call
  of the builder passes \<^verbatim>\<open>'name'\<close>.
\<close>

datatype SectionField = SectionTitle | SectionName

definition updateSection :: "string \<Rightarrow> SectionField \<Rightarrow> string \<Rightarrow> BuilderState \<Rightarrow> BuilderState" where
  "updateSection sid field v st =
     setSections
       (map (\<lambda>s. if secId s = sid
                  then (case field of SectionTitle \<Rightarrow> s\<lparr>title := v\<rparr>
                                    | SectionName \<Rightarrow> s\<lparr>secName := Some v\<rparr>)
                  else s) (sections st)) st"

text \<open>
  \<^verbatim>\<open>deleteSection(id)\<close>: the last section stays; the questions of the deleted section go
  to the first section that remains.
\<close>

definition deleteSection :: "string \<Rightarrow> BuilderState \<Rightarrow> BuilderState" where
  "deleteSection sid st =
     (if length (sections st) \<le> 1 then st
      else
        (let updatedQuestions =
               (case find (\<lambda>s. secId s \<noteq> sid) (sections st) of
                  Some remainingSection \<Rightarrow>
                    map (\<lambda>q. if sectionId q = Some sid
                              then q\<lparr>sectionId := Some (secId remainingSection)\<rparr> else q)
                      (questions st)
                | None \<Rightarrow> questions st)
         in setSections (filter (\<lambda>s. secId s \<noteq> sid) (sections st))
              (st\<lparr>questions := updatedQuestions\<rparr>)))"

definition moveQuestionToSection :: "string \<Rightarrow> string \<Rightarrow> BuilderState \<Rightarrow> BuilderState" where
  "moveQuestionToSection qid targetSectionId st =
     setQuestionsRenumbered
       (map (\<lambda>q. if questionId q = qid then q\<lparr>sectionId := Some targetSectionId\<rparr> else q)
          (questions st)) st"

definition getQuestionsBySection :: "string \<Rightarrow> BuilderState \<Rightarrow> Question list" where
  "getQuestionsBySection sectionKey st = filter (inSection sectionKey) (questions st)"

text \<open>
  The result of a drag: the section and index the card was taken from and, when it was
  dropped on a list, the section and index it was dropped at. The droppable ids are
  \<^verbatim>\<open>section-\<close> followed by a section id; the fields here are the ids with that prefix
  taken off.
\<close>

record DropResult =
  sourceSection :: string
  sourceIndex :: nat
  destination :: "(string \<times> nat) option"

datatype TypeError = TypeError

text \<open>
  \<^verbatim>\<open>const [reorderedItem] = sectionQuestions.splice(source.index, 1);
  sectionQuestions.splice(destination.index, 0, reorderedItem)\<close>. Past the end the first
  splice removes nothing and the item is \<^verbatim>\<open>undefined\<close>, here \<open>None\<close>.
\<close>

definition reordered :: "nat \<Rightarrow> nat \<Rightarrow> Question list \<Rightarrow> Question option list" where
  "reordered i j sourceQuestions =
     (let reorderedItem = (if i < length sourceQuestions then Some (sourceQuestions ! i) else None);
          rest = map Some (removeAt i sourceQuestions)
      in take j rest @ [reorderedItem] @ drop j rest)"

text \<open>
  \<^verbatim>\<open>sectionQuestions[sectionQuestions.findIndex(sq => sq.questionId === id)]\<close>: reading
  the id of \<^verbatim>\<open>undefined\<close> throws; \<open>Inr None\<close> is index \<^verbatim>\<open>-1\<close>.
\<close>

fun findById :: "string \<Rightarrow> Question option list \<Rightarrow> TypeError + Question option" where
  "findById qid [] = Inr None"
| "findById qid (None # rest) = Inl TypeError"
| "findById qid (Some sq # rest) = (if questionId sq = qid then Inr (Some sq) else findById qid rest)"

text \<open>\<^verbatim>\<open>array.map(f)\<close> for an \<open>f\<close> that may throw.\<close>

fun mapThrowing :: "('a \<Rightarrow> 'e + 'b) \<Rightarrow> 'a list \<Rightarrow> 'e + 'b list" where
  "mapThrowing f [] = Inr []"
| "mapThrowing f (x # xs) =
     (case f x of
        Inl e \<Rightarrow> Inl e
      | Inr y \<Rightarrow> (case mapThrowing f xs of Inl e \<Rightarrow> Inl e | Inr ys \<Rightarrow> Inr (y # ys)))"

text \<open>
  \<^verbatim>\<open>handleDragEnd(result)\<close>. Within one section every question of the section is replaced
  by the question of the same id in the reordered copy of the section; between sections the
  dragged question gets the section it was dropped on.
\<close>

definition handleDragEnd :: "DropResult \<Rightarrow> BuilderState \<Rightarrow> TypeError + BuilderState" where
  "handleDragEnd result st =
     (case destination result of
        None \<Rightarrow> Inr st
      | Some (destinationSectionId, destinationIndex) \<Rightarrow>
          (let sourceSectionId = sourceSection result;
               sourceQuestions = getQuestionsBySection sourceSectionId st
           in if sourceSectionId = destinationSectionId
              then
                (case mapThrowing
                        (\<lambda>q. if inSection sourceSectionId q
                              then (case findById (questionId q)
                                           (reordered (sourceIndex result) destinationIndex sourceQuestions) of
                                      Inl e \<Rightarrow> Inl e
                                    | Inr None \<Rightarrow> Inr q
                                    | Inr (Some sq) \<Rightarrow> Inr sq)
                              else Inr q)
                        (questions st) of
                   Inl e \<Rightarrow> Inl e
                 | Inr updatedQuestions \<Rightarrow> Inr (setQuestionsRenumbered updatedQuestions st))
              else if sourceIndex result < length sourceQuestions
              then
                (let draggedQuestion = sourceQuestions ! sourceIndex result
                 in Inr (setQuestionsRenumbered
                           (map (\<lambda>q. if questionId q = questionId draggedQuestion
                                      then q\<lparr>sectionId := Some destinationSectionId\<rparr> else q)
                              (questions st)) st))
              else if questions st = [] then Inr (setQuestionsRenumbered [] st)
              else Inl TypeError))"

text \<open>
  A question as it is stored with a form: the fields of a question, of which the id and the
  number may be missing (here empty and 0, both falsy), and the \<^verbatim>\<open>id\<close> of older forms.
\<close>

record StoredQuestion = Question +
  legacyId :: "string option"

text \<open>
  The normalisation of the loaded question at index \<open>idx\<close>; \<open>now\<close> is \<^verbatim>\<open>Date.now().toString()\<close>.
\<close>

definition normalizedQuestion :: "string \<Rightarrow> StoredQuestion \<Rightarrow> nat \<Rightarrow> Question" where
  "normalizedQuestion now q idx =
     (let normalized =
            \<lparr>questionId =
               (if questionId q \<noteq> [] then questionId q
                else (case legacyId q of
                        Some i \<Rightarrow> (if i \<noteq> [] then i else now @ digits (Suc idx) idx)
                      | None \<Rightarrow> now @ digits (Suc idx) idx)),
             questionNo = (if questionNo q \<noteq> 0 then questionNo q else int idx + 1),
             questionType = questionType q,
             questionText = questionText q,
             required = required q,
             options = options q,
             scale = scale q,
             sectionId = sectionId q\<rparr>
      in if questionType q = ''sls''
         then normalized\<lparr>required := True, options := Some slsOptions\<rparr>
         else normalized)"

definition normalizedQuestions :: "string \<Rightarrow> StoredQuestion list \<Rightarrow> Question list" where
  "normalizedQuestions now qs = map (\<lambda>(q, idx). normalizedQuestion now q idx) (zip qs [0..<length qs])"

text \<open>
  The load of a stored form, in the render \<open>st\<close> whose questions and sections the callback
  reads. \<open>None\<close> is a stored value that is not an array. The questions are numbered with the
  sections of \<open>st\<close>, then the stored sections are set.
\<close>

definition loadForm ::
  "string \<Rightarrow> StoredQuestion list option \<Rightarrow> Section list option \<Rightarrow> BuilderState \<Rightarrow> BuilderState" where
  "loadForm now storedQuestions storedSections st =
     (let st1 = (case storedQuestions of
                   Some qs \<Rightarrow> st\<lparr>questions := renumberAllQuestions (sections st) (normalizedQuestions now qs)\<rparr>
                 | None \<Rightarrow> st)
      in case storedSections of
           Some secs \<Rightarrow> setSections secs st1
         | None \<Rightarrow>
             (if questions st \<noteq> []
              then setSections [defaultSection]
                     (st1\<lparr>questions :=
                            map (\<lambda>q. q\<lparr>sectionId := (if noSectionId q then Some ''default'' else sectionId q)\<rparr>)
                              (questions st)\<rparr>)
              else st1))"

text \<open>\<^verbatim>\<open>s.startsWith(p)\<close>.\<close>

definition startsWith :: "string \<Rightarrow> string \<Rightarrow> bool" where
  "startsWith p s = (take (length p) s = p)"

text \<open>
  The effect that runs when the form type is \<^verbatim>\<open>parents_survey\<close>: unless a section for the
  child's identity is there, it puts one in front, with the question for the identifiers;
  \<open>now\<close> is \<^verbatim>\<open>Date.now().toString()\<close>.
\<close>

definition childIdentityEffect :: "string \<Rightarrow> BuilderState \<Rightarrow> BuilderState" where
  "childIdentityEffect now st =
     (if list_ex (\<lambda>s. startsWith ''child-identity-'' (secId s)) (sections st) then st
      else
        (let newSectionId = ''child-identity-'' @ now;
             newSection = \<lparr>secId = newSectionId, title = ''Section 0: Child's Identity'',
                           secName = Some ''Child's Identity'', secOrder = Some (- 1)\<rparr>;
             bcQuestion =
               \<lparr>questionId = ''bc-input-'' @ now, questionNo = 1, questionType = ''bcInput'',
                questionText = ''To start, enter your child's Birth Cert number (BC No.) and press enter. If you have more than 1 child in Iyad Perdaus for this year, enter their BC No. separated by a comma.'',
                required = True, options = None, scale = None, sectionId = Some newSectionId\<rparr>
         in setSections (newSection # sections st)
              (setQuestionsRenumbered (bcQuestion # questions st) st)))"

text \<open>The operations on the questions and sections of a builder.\<close>

datatype BuilderOp =
    AddQuestion string "string option" "string option"
  | UpdateQuestion string FieldUpdate
  | DeleteQuestion string
  | CopyQuestion string string
  | DragEnd DropResult
  | MoveQuestionToSection string string
  | AddSection string
  | UpdateSection string SectionField string
  | DeleteSection string
  | SectionsReplaced "Section list"
  | FormLoaded string "StoredQuestion list option" "Section list option"
  | ParentsSurveyChosen string

text \<open>
  The state after an operation. A handler that throws has set no state. No control of this
  builder reorders the sections; \<open>SectionsReplaced\<close> stands for any other
  \<^verbatim>\<open>setSections\<close>, such as one that would.
\<close>

fun builderOp :: "BuilderOp \<Rightarrow> BuilderState \<Rightarrow> BuilderState" where
  "builderOp (AddQuestion newId type target) st = addQuestion newId type target st"
| "builderOp (UpdateQuestion qid u) st = updateQuestion qid u st"
| "builderOp (DeleteQuestion qid) st = deleteQuestion qid st"
| "builderOp (CopyQuestion newId qid) st = copyQuestion newId qid st"
| "builderOp (DragEnd result) st = (case handleDragEnd result st of Inl e \<Rightarrow> st | Inr st' \<Rightarrow> st')"
| "builderOp (MoveQuestionToSection qid target) st = moveQuestionToSection qid target st"
| "builderOp (AddSection newId) st = addSection newId st"
| "builderOp (UpdateSection sid field v) st = updateSection sid field v st"
| "builderOp (DeleteSection sid) st = deleteSection sid st"
| "builderOp (SectionsReplaced newSections) st = setSections newSections st"
| "builderOp (FormLoaded now storedQuestions storedSections) st = loadForm now storedQuestions storedSections st"
| "builderOp (ParentsSurveyChosen now) st = childIdentityEffect now st"






subsection \<open>The classification the lookup is to compute\<close>










section \<open>Example data\<close>

text \<open>
  A draft form of user u1 whose preview snapshot was prepared earlier and whose working
  snapshot has changed since.
\<close>

definition exampleForm :: Form where
  "exampleForm =
     (\<lambda>c. JNull)
       (FormId := JStr ''f1'', Name := JStr ''Survey'', FormType := JStr ''survey'',
        FormUrl := JStr ''api'', Status := JStr ''draft'', CreatedBy := JStr ''u1'',
        Questions := JArr [JStr ''q-working''], Sections := JArr [JStr ''s-working''],
        PreviewQuestions := JArr [JStr ''q-preview''],
        PreviewSections := JArr [JStr ''s-preview''])"


definition publishBody :: jsobject where
  "publishBody = [''title'' \<mapsto> JStr ''Survey'', ''status'' \<mapsto> JStr ''active'',
                  ''questions'' \<mapsto> JArr [JStr ''q-newest'']]"

definition saveBody :: jsobject where
  "saveBody = [''title'' \<mapsto> JStr ''Survey'', ''createdBy'' \<mapsto> JStr ''mallory'',
               ''questions'' \<mapsto> JArr [JStr ''q-newest'']]"

definition createBody :: jsobject where
  "createBody = [''title'' \<mapsto> JStr ''Quiz'', ''formType'' \<mapsto> JStr ''general'']"

definition createActiveBody :: jsobject where
  "createActiveBody = [''title'' \<mapsto> JStr ''Quiz'', ''status'' \<mapsto> JStr ''active'']"

text \<open>The form a route answered with; only read where the answer is a form.\<close>

definition answeredForm :: "(HttpError + Form) \<times> Form list \<Rightarrow> Form" where
  "answeredForm r = (case fst r of Inr f \<Rightarrow> f | Inl e \<Rightarrow> (\<lambda>c. JNull))"

definition answeredOk :: "(HttpError + 'a) \<times> 'b \<Rightarrow> bool" where
  "answeredOk r = (case fst r of Inr f \<Rightarrow> True | Inl e \<Rightarrow> False)"

text \<open>
  A parents survey restricted to BC001, two students of the roster, and a lookup request
  for both of them, a blank entry and an unknown identifier.
\<close>

definition surveyForm :: Form where
  "surveyForm =
     (\<lambda>c. JNull)
       (FormId := JStr ''f3'', Name := JStr ''Parents'', FormType := JStr ''parents_survey'',
        Status := JStr ''active'', CreatedBy := JStr ''u1'',
        Settings := JObj [(''welcomeMessage'', JStr ''Hello''),
                          (''selectedRespondents'', JArr [JStr ''BC001''])])"

definition studentBC001 :: Student where
  "studentBC001 =
     \<lparr>studentId = ''s1'',
      columns = (\<lambda>c. JNull)(Student_BC := JStr ''BC001'', FullName := JStr ''John Doe'',
                             StudentStatus := JStr ''active''),
      studentCreatedAt = 1, studentUpdatedAt = 1\<rparr>"

definition studentBC002 :: Student where
  "studentBC002 =
     \<lparr>studentId = ''s2'',
      columns = (\<lambda>c. JNull)(Student_BC := JStr ''BC002'', FullName := JStr ''Alice Smith'',
                             StudentStatus := JStr ''active''),
      studentCreatedAt = 2, studentUpdatedAt = 2\<rparr>"

definition lookupBody :: jsobject where
  "lookupBody =
     [''bcNumbers'' \<mapsto> JArr (map JStr ['' BC001'', ''BC002 '', ''  '', ''BC404'']),
      ''formId'' \<mapsto> JStr ''f3'']"


definition stringListForm :: Form where
  "stringListForm =
     surveyForm(FormId := JStr ''f5'', Settings := JObj [(''selectedRespondents'', JStr ''BC001'')])"


definition nothingPositive :: "jsval \<Rightarrow> bool" where
  "nothingPositive v = False"

definition lookupResultOf :: "HttpError + LookupResult \<Rightarrow> LookupResult" where
  "lookupResultOf r =
     (case r of
        Inr result \<Rightarrow> result
      | Inl e \<Rightarrow> \<lparr>foundStudents = [], notFoundBCNumbers = [], notSelectedStudents = []\<rparr>)"










text \<open>
  A builder with two sections, listed against their order, and four questions, one of them
  in a section that does not exist.
\<close>

definition exampleSections :: "Section list" where
  "exampleSections =
     [\<lparr>secId = ''a'', title = ''Section 2'', secName = None, secOrder = Some 1\<rparr>,
      \<lparr>secId = ''b'', title = ''Section 1'', secName = None, secOrder = Some 0\<rparr>]"

definition exampleQuestion :: "string \<Rightarrow> string \<Rightarrow> string \<Rightarrow> Question" where
  "exampleQuestion qid type sectionKey =
     \<lparr>questionId = qid, questionNo = 7, questionType = type, questionText = ''?'',
      required = False, options = None, scale = None, sectionId = Some sectionKey\<rparr>"

definition exampleQuestions :: "Question list" where
  "exampleQuestions =
     [exampleQuestion ''q1'' ''text'' ''a'', exampleQuestion ''q2'' ''text'' ''b'',
      exampleQuestion ''q3'' ''text'' ''gone'', exampleQuestion ''q4'' ''radio'' ''b'']"

text \<open>An agreement-scale question as \<^verbatim>\<open>addQuestion('sls', 'a')\<close> makes it.\<close>

definition slsQuestion :: Question where
  "slsQuestion =
     \<lparr>questionId = ''q5'', questionNo = 1, questionType = ''sls'', questionText = [],
      required = True, options = Some slsOptions, scale = None, sectionId = Some ''a''\<rparr>"

definition exampleBuilder :: BuilderState where
  "exampleBuilder = \<lparr>sections = exampleSections, questions = exampleQuestions @ [slsQuestion]\<rparr>"

text \<open>The row the sheet of the example parses to.\<close>

definition janeRow :: ParsedStudentRow where
  "janeRow =
     \<lparr>index = 2,
      rowData = \<lparr>rowFields = [Student_BC \<mapsto> ''A1'', FullName \<mapsto> ''Jane''],
                 additionalData = Some [''bcNo'' \<mapsto> ''A1'']\<rparr>,
      valid = True, errors = []\<rparr>"

text \<open>The entry of a parsed row's additional data under a key.\<close>

definition additionalOf :: "ParsedStudentRow \<Rightarrow> string \<Rightarrow> string option" where
  "additionalOf r k = (case additionalData (rowData r) of None \<Rightarrow> None | Some m \<Rightarrow> m k)"


definition exampleEdited :: BuilderState where
  "exampleEdited =
     \<lparr>sections =
        [\<lparr>secId = ''default'', title = ''Section 1'', secName = Some [], secOrder = Some 0\<rparr>,
         \<lparr>secId = ''s2'', title = ''Section 2'', secName = Some [], secOrder = Some 1\<rparr>],
      questions =
        [\<lparr>questionId = ''q2'', questionNo = 2, questionType = ''sls'', questionText = [],
          required = True, options = Some slsOptions, scale = None, sectionId = Some ''s2''\<rparr>,
         \<lparr>questionId = ''q4'', questionNo = 3, questionType = ''sls'', questionText = '' (Copy)'',
          required = True, options = Some slsOptions, scale = None, sectionId = Some ''s2''\<rparr>,
         \<lparr>questionId = ''q3'', questionNo = 1, questionType = ''text'', questionText = [],
          required = False, options = None, scale = None, sectionId = Some ''default''\<rparr>]\<rparr>"

text \<open>A stored question without a number.\<close>

definition storedQuestion :: "string \<Rightarrow> string \<Rightarrow> StoredQuestion" where
  "storedQuestion qid sectionKey =
     \<lparr>questionId = qid, questionNo = 0, questionType = ''text'', questionText = ''?'',
      required = False, options = None, scale = None, sectionId = Some sectionKey,
      legacyId = None\<rparr>"



section \<open>Properties of the form routes\<close>

lemmas route_defs =
  putForm_def postForm_def preparePreview_def getFormById_def isPublishOperation_def
  publishUpdates_def saveUpdates_def previewUpdates_def mappedData_def without_def
  parseAndUpdate_def parsePartial_def parseStrict_def requiredCols_def omitCreatedBy_def
  insertFormSchema_def updateForm_def createForm_def newFormRow_def setValues_def jsOr_def
  jsOrUndef_def answeredForm_def answeredOk_def Let_def

lemma answered_split: "answeredOk r \<Longrightarrow> r = (Inr (answeredForm r), snd r)"
  by (cases r) (auto simp: answeredOk_def answeredForm_def split: sum.splits)

lemma parsePartial_Inr:
  "parsePartial shape obj = Inr p \<Longrightarrow> p c = (if c \<in> set shape then obj (colKey c) else None)"
  by (auto simp: parsePartial_def split: if_splits)

lemma update_shape_mem:
  "c \<in> set (omitCreatedBy insertFormSchema) \<longleftrightarrow> c \<notin> {FormId, CreatedBy, CreatedAt, UpdatedAt}"
  by (cases c) (simp_all add: omitCreatedBy_def insertFormSchema_def)

lemma parsed_update_untouched:
  assumes "parsePartial (omitCreatedBy insertFormSchema) obj = Inr parsed"
  shows "parsed FormId = None" and "parsed CreatedBy = None"
  using parsePartial_Inr[OF assms] by (simp_all add: update_shape_mem)






lemma mappedData_status: "mappedData body ''status'' = None"
  by (simp add: mappedData_def without_def Let_def split: option.splits)




subsection \<open>What the update routes leave alone\<close>

lemma setValues_frame:
  "parsed c = None \<Longrightarrow> c \<noteq> UpdatedAt \<Longrightarrow> setValues now parsed g c = g c"
  by (simp add: setValues_def)

lemma updateForm_store:
  assumes "updateForm now fid u store = Inr (r, store')"
  shows "store' = map (\<lambda>f. if f FormId = JStr fid then setValues now u f else f) store"
  using assms by (auto simp: updateForm_def Let_def split: if_splits)

lemma parseAndUpdate_store:
  "snd (parseAndUpdate now fid updates store) = store
   \<or> (\<exists>parsed. parsePartial (omitCreatedBy insertFormSchema) updates = Inr parsed
         \<and> snd (parseAndUpdate now fid updates store)
             = map (\<lambda>g. if g FormId = JStr fid then setValues now parsed g else g) store)"
  by (auto simp: parseAndUpdate_def split: sum.splits option.splits prod.splits dest: updateForm_store)

lemma putForm_store:
  "snd (putForm now userId fid body store) = store
   \<or> (\<exists>f parsed. getFormById store fid = Some f
         \<and> parsePartial (omitCreatedBy insertFormSchema)
               (if isPublishOperation body then publishUpdates now f body
                else saveUpdates now f body) = Inr parsed
         \<and> snd (putForm now userId fid body store)
             = map (\<lambda>g. if g FormId = JStr fid then setValues now parsed g else g) store)"
proof (cases "getFormById store fid")
  case None
  then show ?thesis by (simp add: putForm_def)
next
  case (Some f)
  show ?thesis
  proof (cases "f CreatedBy \<noteq> JStr userId")
    case True
    with Some show ?thesis by (simp add: putForm_def)
  next
    case False
    with Some have "putForm now userId fid body store
        = parseAndUpdate now fid (if isPublishOperation body then publishUpdates now f body
                else saveUpdates now f body) store"
      by (simp add: putForm_def)
    with parseAndUpdate_store[of now fid "if isPublishOperation body then publishUpdates now f body
                else saveUpdates now f body" store] Some show ?thesis by auto
  qed
qed

lemma preparePreview_store:
  "snd (preparePreview now userId fid store) = store
   \<or> (\<exists>f parsed. getFormById store fid = Some f
         \<and> parsePartial (omitCreatedBy insertFormSchema) (previewUpdates now f) = Inr parsed
         \<and> snd (preparePreview now userId fid store)
             = map (\<lambda>g. if g FormId = JStr fid then setValues now parsed g else g) store)"
  by (auto simp: preparePreview_def split: option.splits sum.splits prod.splits dest: updateForm_store)

lemma putForm_createdBy:
  "map (\<lambda>g. g CreatedBy) (snd (putForm now userId fid body store)) = map (\<lambda>g. g CreatedBy) store"
  using putForm_store[of now userId fid body store]
  by (auto simp: setValues_frame parsed_update_untouched(2))

lemma preparePreview_createdBy:
  "map (\<lambda>g. g CreatedBy) (snd (preparePreview now userId fid store)) = map (\<lambda>g. g CreatedBy) store"
  using preparePreview_store[of now userId fid store]
  by (auto simp: setValues_frame parsed_update_untouched(2))

lemma previewUpdates_status: "previewUpdates now f ''status'' = None"
  by (simp add: previewUpdates_def)

lemma preparePreview_status:
  "map (\<lambda>g. g Status) (snd (preparePreview now userId fid store)) = map (\<lambda>g. g Status) store"
proof -
  have "parsed Status = None"
    if "parsePartial (omitCreatedBy insertFormSchema) (previewUpdates now f) = Inr parsed" for parsed f
    using parsePartial_Inr[OF that, of Status] by (simp add: previewUpdates_status)
  then show ?thesis
    using preparePreview_store[of now userId fid store]
    by (auto simp: setValues_frame)
qed

lemma putForm_save_status:
  assumes "\<not> isPublishOperation body"
  shows "map (\<lambda>g. g Status) (snd (putForm now userId fid body store)) = map (\<lambda>g. g Status) store"
proof -
  have "parsed Status = None"
    if "parsePartial (omitCreatedBy insertFormSchema) (saveUpdates now f body) = Inr parsed" for parsed f
    using parsePartial_Inr[OF that, of Status] by (simp add: saveUpdates_def mappedData_status)
  then show ?thesis
    using putForm_store[of now userId fid body store] assms
    by (auto simp: setValues_frame)
qed

lemma postForm_Inr:
  assumes "postForm now newId userId body store = (Inr f, store')"
  shows "f Status = (case body ''status'' of None \<Rightarrow> JStr ''draft'' | Some s \<Rightarrow> s)"
    and "store' = store @ [f]"
    and "f CreatedBy = JStr userId"
proof -
  define md where "md = ((without body [''title''])(''name'' := body ''title''))(''createdBy'' \<mapsto> JStr userId)"
  from assms obtain formData where p: "parseStrict insertFormSchema md = Inr formData"
    and c: "createForm now newId formData store = Inr (f, store')"
    unfolding postForm_def Let_def md_def by (auto split: sum.splits prod.splits)
  from p have pp: "parsePartial insertFormSchema md = Inr formData"
    by (simp add: parseStrict_def split: if_splits)
  from c have f: "f = newFormRow now newId formData" and s: "store' = store @ [f]"
    by (auto simp: createForm_def Let_def split: if_splits)
  have "formData Status = body ''status''"
    using parsePartial_Inr[OF pp, of Status] by (simp add: insertFormSchema_def md_def without_def)
  then show "f Status = (case body ''status'' of None \<Rightarrow> JStr ''draft'' | Some s \<Rightarrow> s)"
    by (simp add: f newFormRow_def split: option.splits)
  show "store' = store @ [f]" by (rule s)
  have "formData CreatedBy = Some (JStr userId)"
    using parsePartial_Inr[OF pp, of CreatedBy] by (simp add: insertFormSchema_def md_def)
  then show "f CreatedBy = JStr userId" by (simp add: f newFormRow_def)
qed

text \<open>
  C3, as the claim states it, fails: the create route hands the request body to the insert
  schema, which accepts an optional status, so a create request that carries status
  'active' creates an active form.
\<close>

theorem create_with_active_status_counterexample:
  "answeredOk (postForm 7 ''f9'' ''u1'' createActiveBody [])
   \<and> answeredForm (postForm 7 ''f9'' ''u1'' createActiveBody []) Status = JStr ''active''"
  by (simp add: route_defs createActiveBody_def)

text \<open>
  C3, amended. Saving working content (an update whose body's status is not 'active')
  and preparing a preview leave the status of every stored form as it was. A created form
  has the status its request body gives, and status 'draft' when the body gives none; the
  forms stored before are untouched.
\<close>

theorem status_active_only_by_publish_or_create_body:
  "(\<not> isPublishOperation body \<longrightarrow>
      map (\<lambda>g. g Status) (snd (putForm now userId fid body store)) = map (\<lambda>g. g Status) store)
   \<and> map (\<lambda>g. g Status) (snd (preparePreview now userId fid store)) = map (\<lambda>g. g Status) store
   \<and> (postForm now newId userId cbody store = (Inr f, store') \<longrightarrow>
        store' = store @ [f]
        \<and> f Status = (case cbody ''status'' of None \<Rightarrow> JStr ''draft'' | Some s \<Rightarrow> s)
        \<and> (cbody ''status'' = None \<longrightarrow> f Status = JStr ''draft''))"
  using putForm_save_status[of body now userId fid store]
    preparePreview_status[of now userId fid store]
    postForm_Inr(1,2)[of now newId userId cbody store f store']
  by simp

theorem status_active_only_by_publish_or_create_body_witness:
  "\<not> isPublishOperation saveBody
   \<and> answeredOk (putForm 7 ''u1'' ''f1'' saveBody [exampleForm])
   \<and> map (\<lambda>g. g Status) (snd (putForm 7 ''u1'' ''f1'' saveBody [exampleForm])) = [JStr ''draft'']
   \<and> answeredOk (preparePreview 7 ''u1'' ''f1'' [exampleForm])
   \<and> map (\<lambda>g. g Status) (snd (preparePreview 7 ''u1'' ''f1'' [exampleForm])) = [JStr ''draft'']
   \<and> answeredOk (postForm 7 ''f9'' ''u1'' createBody [exampleForm])
   \<and> createBody ''status'' = None
   \<and> answeredForm (postForm 7 ''f9'' ''u1'' createBody [exampleForm]) Status = JStr ''draft''
   \<and> snd (postForm 7 ''f9'' ''u1'' createBody [exampleForm])
       = [exampleForm, answeredForm (postForm 7 ''f9'' ''u1'' createBody [exampleForm])]"
proof -
  have nb: "\<not> isPublishOperation saveBody"
    by (simp add: isPublishOperation_def saveBody_def)
  have ok1: "answeredOk (putForm 7 ''u1'' ''f1'' saveBody [exampleForm])"
    by (simp add: route_defs exampleForm_def saveBody_def)
  have ok2: "answeredOk (preparePreview 7 ''u1'' ''f1'' [exampleForm])"
    by (simp add: route_defs exampleForm_def)
  have ok3: "answeredOk (postForm 7 ''f9'' ''u1'' createBody [exampleForm])"
    by (simp add: route_defs exampleForm_def createBody_def)
  have cb: "createBody ''status'' = None"
    by (simp add: createBody_def)
  have st: "exampleForm Status = JStr ''draft''"
    by (simp add: exampleForm_def)
  note t = status_active_only_by_publish_or_create_body
             [of saveBody 7 "''u1''" "''f1''" "[exampleForm]" "''f9''" createBody
                 "answeredForm (postForm 7 ''f9'' ''u1'' createBody [exampleForm])"
                 "snd (postForm 7 ''f9'' ''u1'' createBody [exampleForm])"]
  from t nb ok1 ok2 ok3 cb st answered_split[OF ok3] show ?thesis
    by simp
qed

text \<open>
  C10. The update route (save and publish) and the prepare-preview route leave the
  createdBy of every stored form as it was, whatever the request body holds and however
  the request ends: the payload they persist is parsed with createdBy omitted from the
  schema, so a createdBy key in the body never reaches the update.
\<close>

theorem update_paths_keep_createdBy:
  "map (\<lambda>g. g CreatedBy) (snd (putForm now userId fid body store)) = map (\<lambda>g. g CreatedBy) store
   \<and> map (\<lambda>g. g CreatedBy) (snd (preparePreview now userId fid store))
       = map (\<lambda>g. g CreatedBy) store
   \<and> (parsePartial (omitCreatedBy insertFormSchema) obj = Inr parsed
        \<longrightarrow> parsed CreatedBy = None)"
  using putForm_createdBy[of now userId fid body store]
    preparePreview_createdBy[of now userId fid store]
    parsed_update_untouched(2)[of obj parsed]
  by simp

theorem update_paths_keep_createdBy_witness:
  "saveBody ''createdBy'' = Some (JStr ''mallory'')
   \<and> answeredOk (putForm 7 ''u1'' ''f1'' saveBody [exampleForm])
   \<and> map (\<lambda>g. g CreatedBy) (snd (putForm 7 ''u1'' ''f1'' saveBody [exampleForm])) = [JStr ''u1'']
   \<and> answeredOk (putForm 7 ''u1'' ''f1'' publishBody [exampleForm])
   \<and> map (\<lambda>g. g CreatedBy) (snd (putForm 7 ''u1'' ''f1'' publishBody [exampleForm])) = [JStr ''u1'']
   \<and> answeredOk (preparePreview 7 ''u1'' ''f1'' [exampleForm])
   \<and> map (\<lambda>g. g CreatedBy) (snd (preparePreview 7 ''u1'' ''f1'' [exampleForm])) = [JStr ''u1'']
   \<and> parsePartial (omitCreatedBy insertFormSchema) [''createdBy'' \<mapsto> JStr ''mallory'']
       = Inr (\<lambda>c. None)"
proof -
  have sb: "saveBody ''createdBy'' = Some (JStr ''mallory'')"
    by (simp add: saveBody_def)
  have ok1: "answeredOk (putForm 7 ''u1'' ''f1'' saveBody [exampleForm])"
    by (simp add: route_defs exampleForm_def saveBody_def)
  have ok2: "answeredOk (putForm 7 ''u1'' ''f1'' publishBody [exampleForm])"
    by (simp add: route_defs exampleForm_def publishBody_def)
  have ok3: "answeredOk (preparePreview 7 ''u1'' ''f1'' [exampleForm])"
    by (simp add: route_defs exampleForm_def)
  have cb: "exampleForm CreatedBy = JStr ''u1''"
    by (simp add: exampleForm_def)
  have p: "parsePartial (omitCreatedBy insertFormSchema) [''createdBy'' \<mapsto> JStr ''mallory'']
             = Inr (\<lambda>c. None)"
    by (auto simp: parsePartial_def omitCreatedBy_def insertFormSchema_def)
  note t1 = update_paths_keep_createdBy
              [of 7 "''u1''" "''f1''" saveBody "[exampleForm]"
                  "[''createdBy'' \<mapsto> JStr ''mallory'']" "\<lambda>c. None"]
  note t2 = update_paths_keep_createdBy
              [of 7 "''u1''" "''f1''" publishBody "[exampleForm]"
                  "[''createdBy'' \<mapsto> JStr ''mallory'']" "\<lambda>c. None"]
  from t1 t2 sb ok1 ok2 ok3 cb p show ?thesis
    by simp
qed

section \<open>Properties of public form URLs\<close>

lemma reserved_lower: "slug \<in> set RESERVED_SLUGS \<Longrightarrow> toLowerCase slug = slug"
  by (auto simp: RESERVED_SLUGS_def toLowerCase_def toLowerChar_def)

text \<open>
  C8. A reserved slug requested as a public form URL gets the not-found page: the route
  component checks the deny-list before the public form page is rendered, so whatever
  forms are stored, one whose formUrl is that slug included, none is shown.
\<close>

theorem reserved_slug_resolves_not_found:
  assumes "slug \<in> set RESERVED_SLUGS"
  shows "PublicFormRoute slug = NotFound \<and> publicPage store slug = NotFoundPage"
  using assms by (simp add: publicPage_def PublicFormRoute_def reserved_lower)

theorem reserved_slug_resolves_not_found_witness:
  "''api'' \<in> set RESERVED_SLUGS
   \<and> getFormByUrl [exampleForm] ''api'' = Some exampleForm
   \<and> PublicFormRoute ''api'' = NotFound
   \<and> publicPage [exampleForm] ''api'' = NotFoundPage"
proof -
  have m: "''api'' \<in> set RESERVED_SLUGS"
    by (simp add: RESERVED_SLUGS_def)
  have g: "getFormByUrl [exampleForm] ''api'' = Some exampleForm"
    by (simp add: getFormByUrl_def exampleForm_def)
  from reserved_slug_resolves_not_found[OF m, of "[exampleForm]"] m g show ?thesis
    by simp
qed

text \<open>
  The deny-list lives in the client's router only. The endpoint behind the public form
  page has none: asked directly for the slug, it answers with the form.
\<close>

lemma public_endpoint_has_no_deny_list:
  "getPublicForm [exampleForm] ''api''
     = Inr (exampleForm, JArr [JStr ''q-working''], JArr [JStr ''s-working''])"
  by (simp add: getPublicForm_def getFormByUrl_def exampleForm_def jsOr_def)

text \<open>The deny-list is matched in lower case, so other spellings are refused as well.\<close>

lemma reserved_slug_any_case: "PublicFormRoute ''API'' = NotFound"
  by (simp add: PublicFormRoute_def RESERVED_SLUGS_def toLowerCase_def toLowerChar_def)

section \<open>Properties of the identifier lookup\<close>














text \<open>
  An allow-list that was stored as a string is searched for the identifier as a substring:
  with the string BC001 the student BC001 is found and BC002 is reported as not selected.
\<close>

lemma lookup_string_allow_list:
  "map student_BC (foundStudents (lookupResultOf
      (lookupBc nothingPositive [stringListForm] [studentBC001, studentBC002]
         (lookupBody(''formId'' \<mapsto> JStr ''f5'')))))
     = [JStr ''BC001'']
   \<and> map student_BC (notSelectedStudents (lookupResultOf
      (lookupBc nothingPositive [stringListForm] [studentBC001, studentBC002]
         (lookupBody(''formId'' \<mapsto> JStr ''f5'')))))
     = [JStr ''BC002'']"
  by code_simp

section \<open>Properties of the bulk import of students\<close>






lemma setStudentValues_id [simp]: "studentId (setStudentValues u s) = studentId s"
  by (simp add: setStudentValues_def)



























section \<open>Properties of the student sheet parser\<close>

lemmas parse_defs =
  parseDataRows_def requiredHeaderVariants_def toLowerCase_def toLowerChar_def blankRow_def
  trim_def isWhiteSpace_def parseRow_def cellValue_def mapHeader_def storeUnmapped_def
  isKnownField_def knownFields_def setField_def setAdditional_def fieldUnset_def
  additionalUnset_def validateStudentRow_def emailRegexTest_def Let_def

text \<open>
  C9, as the claim states it, fails: the header Name is a recognised spelling of the full
  name field, so the parsed row has no entry Name in its additional data.
\<close>

theorem sheet_name_header_counterexample:
  "parseDataRows [''Bc No'', ''Name''] [[''A1'', ''Jane'']] = Inr [janeRow]
   \<and> additionalOf janeRow ''Name'' = None"
  by (simp add: parse_defs janeRow_def additionalOf_def)

text \<open>
  C9, amended. The sheet with headers Bc No and Name and the row A1, Jane parses to one
  row: its external identifier is A1, its full name is Jane, its additional data hold the
  identifier again under bcNo and nothing under Name, and the row is valid.
\<close>

theorem sheet_name_header_sets_full_name:
  "parseDataRows [''Bc No'', ''Name''] [[''A1'', ''Jane'']] = Inr [janeRow]
   \<and> rowFields (rowData janeRow) Student_BC = Some ''A1''
   \<and> rowFields (rowData janeRow) FullName = Some ''Jane''
   \<and> additionalOf janeRow ''bcNo'' = Some ''A1''
   \<and> additionalOf janeRow ''Name'' = None
   \<and> valid janeRow \<and> errors janeRow = [] \<and> index janeRow = 2"
  by (simp add: parse_defs janeRow_def additionalOf_def)

text \<open>A header that is no known field does go to the additional data, under its own text.\<close>

lemma sheet_unknown_header_kept:
  "map (\<lambda>r. additionalOf r ''Nickname'')
     (case parseDataRows [''Bc No'', ''Nickname''] [[''A1'', ''Jay'']] of Inr rows \<Rightarrow> rows | Inl e \<Rightarrow> [])
   = [Some ''Jay'']"
  by (simp add: parse_defs additionalOf_def)

section \<open>Properties of the renumbering\<close>

lemma numberRemaining_eq: "numberRemainingQuestion q st = numberSectionQuestion q st"
  by (simp add: numberRemainingQuestion_def numberSectionQuestion_def split: option.splits)

lemma fold_fold_concat: "fold (\<lambda>s st. fold f (g s) st) ss st = fold f (concat (map g ss)) st"
  by (induction ss arbitrary: st) simp_all

lemma renumber_fold:
  "renumberAllQuestions secs qs
     = renumberedQuestions
         (fold numberSectionQuestion (visitSequence secs qs)
            \<lparr>currentNumber = 1, renumberedQuestions = qs, processedQuestionIds = {}\<rparr>)"
proof -
  have r: "numberRemainingQuestion = numberSectionQuestion"
    by (intro ext) (rule numberRemaining_eq)
  show ?thesis
    by (cases "secs = []")
       (simp_all add: renumberAllQuestions_def visitSequence_def Let_def r fold_fold_concat)
qed

lemma findIndex_Some_iff:
  "findIndex p xs = Some i \<longleftrightarrow> i < length xs \<and> p (xs ! i) \<and> (\<forall>j<i. \<not> p (xs ! j))"
proof (induction xs arbitrary: i)
  case Nil
  show ?case by simp
next
  case (Cons x xs)
  show ?case
  proof (cases "p x")
    case True
    then show ?thesis by (cases i) auto
  next
    case False
    show ?thesis
    proof (cases i)
      case 0
      with False show ?thesis by auto
    next
      case (Suc k)
      have "(\<forall>j<Suc k. \<not> p ((x # xs) ! j)) \<longleftrightarrow> (\<forall>j<k. \<not> p (xs ! j))"
        using False by (auto simp: less_Suc_eq_0_disj)
      with False Suc Cons.IH[of k] show ?thesis by auto
    qed
  qed
qed

lemma findIndex_None_iff: "findIndex p xs = None \<longleftrightarrow> (\<forall>x\<in>set xs. \<not> p x)"
  by (induction xs) auto

lemma findIndex_append:
  "findIndex p (xs @ ys)
     = (case findIndex p xs of Some k \<Rightarrow> Some k
        | None \<Rightarrow> map_option (\<lambda>k. length xs + k) (findIndex p ys))"
proof (induction xs)
  case Nil
  show ?case by (cases "findIndex p ys") simp_all
next
  case (Cons a xs)
  then show ?case by (cases "findIndex p ys") (auto split: option.splits)
qed

lemma findIndex_cong_map:
  assumes "\<And>x. x \<in> set xs \<Longrightarrow> p (g x) = p x"
  shows "findIndex p (map g xs) = findIndex p xs"
  using assms by (induction xs) auto

lemma numbered_ids: "map questionId (numbered ord qs) = map questionId qs"
  by (induction qs) (auto simp: numbered_def split: option.splits)

lemma findIndex_numbered:
  "findIndex (\<lambda>q. questionId q = i) (numbered ord qs) = findIndex (\<lambda>q. questionId q = i) qs"
  unfolding numbered_def
  by (rule findIndex_cong_map) (auto split: option.splits)

lemma numbered_snoc:
  assumes d: "distinct (map questionId qs)"
      and i: "findIndex (\<lambda>q. questionId q = x) qs = Some i"
      and nx: "x \<notin> set ord"
  shows "numbered (ord @ [x]) qs
           = (numbered ord qs)[i := (numbered ord qs ! i)\<lparr>questionNo := 1 + int (length ord)\<rparr>]"
proof (rule nth_equalityI)
  show "length (numbered (ord @ [x]) qs)
          = length ((numbered ord qs)[i := (numbered ord qs ! i)\<lparr>questionNo := 1 + int (length ord)\<rparr>])"
    by (simp add: numbered_def)
next
  fix j assume "j < length (numbered (ord @ [x]) qs)"
  then have j: "j < length qs" by (simp add: numbered_def)
  from i have i': "i < length qs" "questionId (qs ! i) = x"
    by (auto simp: findIndex_Some_iff)
  from nx have none: "findIndex (\<lambda>y. y = x) ord = None"
    by (auto simp: findIndex_None_iff)
  show "numbered (ord @ [x]) qs ! j
          = (numbered ord qs)[i := (numbered ord qs ! i)\<lparr>questionNo := 1 + int (length ord)\<rparr>] ! j"
  proof (cases "j = i")
    case True
    with i' none show ?thesis
      by (simp add: numbered_def findIndex_append)
  next
    case False
    with d j i' have "questionId (qs ! j) \<noteq> x"
      by (metis distinct_conv_nth length_map nth_map)
    with False j show ?thesis
      by (simp add: numbered_def findIndex_append split: option.splits)
  qed
qed

text \<open>One step of the renumbering, on a state that has numbered the ids in \<open>ord\<close>.\<close>

lemma number_step:
  assumes d: "distinct (map questionId qs)"
      and v: "v \<in> set qs"
      and st: "st = \<lparr>currentNumber = 1 + int (length ord), renumberedQuestions = numbered ord qs,
                     processedQuestionIds = set ord\<rparr>"
  shows "numberSectionQuestion v st
           = (let ord' = (if questionId v \<in> set ord then ord else ord @ [questionId v])
              in \<lparr>currentNumber = 1 + int (length ord'), renumberedQuestions = numbered ord' qs,
                  processedQuestionIds = set ord'\<rparr>)"
proof -
  from v obtain i where i: "findIndex (\<lambda>q. questionId q = questionId v) qs = Some i"
    by (cases "findIndex (\<lambda>q. questionId q = questionId v) qs") (auto simp: findIndex_None_iff)
  show ?thesis
  proof (cases "questionId v \<in> set ord")
    case True
    with i show ?thesis
      by (simp add: numberSectionQuestion_def st findIndex_numbered)
  next
    case False
    with i numbered_snoc[OF d i False] show ?thesis
      by (simp add: numberSectionQuestion_def st findIndex_numbered assignNumber_def)
  qed
qed

lemma number_fold:
  assumes d: "distinct (map questionId qs)" and v: "set vs \<subseteq> set qs"
  shows "fold numberSectionQuestion vs
           \<lparr>currentNumber = 1 + int (length ord), renumberedQuestions = numbered ord qs,
            processedQuestionIds = set ord\<rparr>
         = (let ord' = fold (\<lambda>x acc. if x \<in> set acc then acc else acc @ [x]) (map questionId vs) ord
            in \<lparr>currentNumber = 1 + int (length ord'), renumberedQuestions = numbered ord' qs,
                processedQuestionIds = set ord'\<rparr>)"
  using v
proof (induction vs arbitrary: ord)
  case Nil
  show ?case by simp
next
  case (Cons a vs)
  from Cons.prems have a: "a \<in> set qs" and vs: "set vs \<subseteq> set qs" by auto
  show ?case
    using number_step[OF d a refl, of ord] Cons.IH[OF vs] by (simp add: Let_def)
qed

lemma numbered_Nil: "numbered [] qs = qs"
  by (induction qs) (simp_all add: numbered_def)

lemma renumber_numbered:
  assumes "distinct (map questionId qs)"
  shows "renumberAllQuestions secs qs = numbered (numberingOrder secs qs) qs"
proof -
  have "set (visitSequence secs qs) \<subseteq> set qs"
    by (auto simp: visitSequence_def)
  from number_fold[OF assms this, of "[]"] show ?thesis
    by (simp add: renumber_fold numbered_Nil numberingOrder_def firstSeen_def Let_def)
qed

lemma firstSeen_fold_props:
  "distinct acc \<Longrightarrow> distinct (fold (\<lambda>x acc. if x \<in> set acc then acc else acc @ [x]) xs acc)
     \<and> set (fold (\<lambda>x acc. if x \<in> set acc then acc else acc @ [x]) xs acc) = set acc \<union> set xs"
  by (induction xs arbitrary: acc) auto

lemma firstSeen_distinct: "distinct (firstSeen xs)"
  using firstSeen_fold_props[of "[]" xs] by (simp add: firstSeen_def)

lemma firstSeen_set: "set (firstSeen xs) = set xs"
  using firstSeen_fold_props[of "[]" xs] by (simp add: firstSeen_def)

lemma visitSequence_set: "set (visitSequence secs qs) = set qs"
  by (auto simp: visitSequence_def)

lemma numberingOrder_distinct: "distinct (numberingOrder secs qs)"
  by (simp add: numberingOrder_def firstSeen_distinct)

lemma numberingOrder_set: "set (numberingOrder secs qs) = questionId ` set qs"
  by (simp add: numberingOrder_def firstSeen_set visitSequence_set)

lemma position_nth:
  assumes "distinct xs" and "k < length xs"
  shows "position (xs ! k) xs = k"
proof -
  have "findIndex (\<lambda>y. y = xs ! k) xs = Some k"
    unfolding findIndex_Some_iff using assms by (auto simp: nth_eq_iff_index_eq)
  then show ?thesis by (simp add: position_def)
qed

lemma position_mem:
  assumes "x \<in> set xs"
  shows "position x xs < length xs" and "xs ! position x xs = x"
    and "findIndex (\<lambda>y. y = x) xs = Some (position x xs)"
proof -
  from assms obtain k where k: "findIndex (\<lambda>y. y = x) xs = Some k"
    by (cases "findIndex (\<lambda>y. y = x) xs") (auto simp: findIndex_None_iff)
  then show "findIndex (\<lambda>y. y = x) xs = Some (position x xs)" by (simp add: position_def)
  from k have p: "position x xs = k" by (simp add: position_def)
  from k have "k < length xs" "xs ! k = x" by (simp_all add: findIndex_Some_iff)
  then show "position x xs < length xs" "xs ! position x xs = x"
    unfolding p by simp_all
qed

lemma position_image:
  assumes "distinct xs"
  shows "(\<lambda>x. position x xs) ` set xs = {0..<length xs}"
proof
  show "(\<lambda>x. position x xs) ` set xs \<subseteq> {0..<length xs}"
    using position_mem(1) by fastforce
  show "{0..<length xs} \<subseteq> (\<lambda>x. position x xs) ` set xs"
  proof
    fix k assume "k \<in> {0..<length xs}"
    then have k: "k < length xs" by simp
    with position_nth[OF assms k] show "k \<in> (\<lambda>x. position x xs) ` set xs"
      by (metis image_eqI nth_mem)
  qed
qed

lemma position_inj: "inj_on (\<lambda>x. position x xs) (set xs)"
  by (rule inj_onI) (metis position_mem(2))

lemma numbered_all:
  assumes "questionId ` set qs \<subseteq> set ord"
  shows "numbered ord qs = map (\<lambda>q. q\<lparr>questionNo := 1 + int (position (questionId q) ord)\<rparr>) qs"
  unfolding numbered_def
proof (rule map_cong[OF refl])
  fix q assume "q \<in> set qs"
  with assms have "questionId q \<in> set ord" by auto
  from position_mem(3)[OF this]
  show "(case findIndex (\<lambda>y. y = questionId q) ord of None \<Rightarrow> q
          | Some k \<Rightarrow> q\<lparr>questionNo := 1 + int k\<rparr>)
        = q\<lparr>questionNo := 1 + int (position (questionId q) ord)\<rparr>"
    by simp
qed

lemma numbers_of_permutation:
  assumes d: "distinct (map questionId qs)" and o: "distinct ord" and s: "set ord = questionId ` set qs"
  shows "set (map (\<lambda>q. 1 + int (position (questionId q) ord)) qs) = {1..int (length qs)}"
    and "distinct (map (\<lambda>q. 1 + int (position (questionId q) ord)) qs)"
proof -
  from d o s have len: "length ord = length qs"
    by (metis distinct_card length_map set_map)
  have "set (map (\<lambda>q. 1 + int (position (questionId q) ord)) qs)
          = (\<lambda>k. 1 + int k) ` ((\<lambda>x. position x ord) ` set ord)"
    by (simp add: s image_image)
  also have "\<dots> = (\<lambda>k. 1 + int k) ` {0..<length qs}"
    by (simp add: position_image[OF o] len)
  also have "\<dots> = {1..int (length qs)}"
  proof
    show "(\<lambda>k. 1 + int k) ` {0..<length qs} \<subseteq> {1..int (length qs)}" by auto
    show "{1..int (length qs)} \<subseteq> (\<lambda>k. 1 + int k) ` {0..<length qs}"
    proof
      fix z assume "z \<in> {1..int (length qs)}"
      then have "nat (z - 1) \<in> {0..<length qs}" "z = 1 + int (nat (z - 1))" by auto
      then show "z \<in> (\<lambda>k. 1 + int k) ` {0..<length qs}" by (rule_tac image_eqI)
    qed
  qed
  finally show "set (map (\<lambda>q. 1 + int (position (questionId q) ord)) qs) = {1..int (length qs)}" .
  have "inj_on (\<lambda>q. 1 + int (position (questionId q) ord)) (set qs)"
  proof (rule inj_onI)
    fix q r assume q: "q \<in> set qs" and r: "r \<in> set qs"
      and e: "1 + int (position (questionId q) ord) = 1 + int (position (questionId r) ord)"
    from q r s have "questionId q \<in> set ord" "questionId r \<in> set ord" by auto
    with e position_inj[of ord] have "questionId q = questionId r"
      by (auto dest: inj_onD)
    with d q r show "q = r"
      by (meson distinct_map inj_onD)
  qed
  moreover from d have "distinct qs" by (simp add: distinct_map)
  ultimately show "distinct (map (\<lambda>q. 1 + int (position (questionId q) ord)) qs)"
    by (simp add: distinct_map)
qed

lemma firstSeen_fold_distinct:
  "distinct (acc @ xs) \<Longrightarrow> fold (\<lambda>x acc. if x \<in> set acc then acc else acc @ [x]) xs acc = acc @ xs"
  by (induction xs arbitrary: acc) auto

lemma firstSeen_fold_filter:
  "distinct ys \<Longrightarrow>
     fold (\<lambda>x acc. if x \<in> set acc then acc else acc @ [x]) ys acc
       = acc @ filter (\<lambda>y. y \<notin> set acc) ys"
proof (induction ys arbitrary: acc)
  case Nil
  show ?case by simp
next
  case (Cons y ys)
  from Cons.prems have d: "distinct ys" and ny: "y \<notin> set ys" by auto
  show ?case
  proof (cases "y \<in> set acc")
    case True
    with Cons.IH[OF d, of acc] show ?thesis by simp
  next
    case False
    from ny have "filter (\<lambda>z. z \<notin> set (acc @ [y])) ys = filter (\<lambda>z. z \<notin> set acc) ys"
      by (auto intro: filter_cong)
    with False Cons.IH[OF d, of "acc @ [y]"] show ?thesis by simp
  qed
qed

lemma firstSeen_append:
  assumes "distinct xs" and "distinct ys"
  shows "firstSeen (xs @ ys) = xs @ filter (\<lambda>y. y \<notin> set xs) ys"
  using firstSeen_fold_distinct[of "[]" xs] firstSeen_fold_filter[OF assms(2), of xs] assms(1)
  by (simp add: firstSeen_def)

lemma distinct_concat_filters:
  assumes "distinct qs"
  shows "\<forall>q\<in>set qs. length (filter (\<lambda>s. P s q) ss) \<le> 1 \<Longrightarrow>
           distinct (concat (map (\<lambda>s. filter (P s) qs) ss))"
proof (induction ss)
  case Nil
  show ?case by simp
next
  case (Cons s ss)
  have rest: "\<forall>q\<in>set qs. length (filter (\<lambda>s. P s q) ss) \<le> 1"
    using Cons.prems by (auto split: if_splits)
  have disj: "set (filter (P s) qs) \<inter> set (concat (map (\<lambda>s. filter (P s) qs) ss)) = {}"
  proof (rule ccontr)
    assume "set (filter (P s) qs) \<inter> set (concat (map (\<lambda>s. filter (P s) qs) ss)) \<noteq> {}"
    then obtain q s' where q: "q \<in> set qs" "P s q" "s' \<in> set ss" "P s' q" by auto
    then have "filter (\<lambda>s. P s q) ss \<noteq> []" by (auto simp: filter_empty_conv)
    then have "length (filter (\<lambda>s. P s q) ss) \<ge> 1" by (cases "filter (\<lambda>s. P s q) ss") auto
    with q(2) have "length (filter (\<lambda>s. P s q) (s # ss)) \<ge> 2" by simp
    with Cons.prems q(1) show False by fastforce
  qed
  from assms Cons.IH[OF rest] disj show ?case by simp
qed

lemma specOrder_ids:
  assumes d: "distinct (map questionId qs)" and sd: "sectionsDisjoint secs qs"
  shows "numberingOrder secs qs = map questionId (specOrder secs qs)"
proof -
  let ?sorted = "sort_key orderOrZero secs"
  let ?S = "concat (map (\<lambda>s. filter (inSection (secId s)) qs) ?sorted)"
  from d have dq: "distinct qs" and inj: "inj_on questionId (set qs)"
    by (simp_all add: distinct_map)
  have "\<forall>q\<in>set qs. length (filter (\<lambda>s. inSection (secId s) q) ?sorted) \<le> 1"
    using sd by (simp add: sectionsDisjoint_def list_all_iff filter_sort)
  from distinct_concat_filters[OF dq this] have dS: "distinct ?S" .
  have sub: "set ?S \<subseteq> set qs" by auto
  from dS inj sub have dids: "distinct (map questionId ?S)"
    by (auto simp: distinct_map intro: inj_on_subset)
  have mem: "(questionId q \<notin> set (map questionId ?S)) = (\<not> list_ex (\<lambda>s. inSection (secId s) q) secs)"
    if q: "q \<in> set qs" for q
  proof -
    have "questionId q \<in> set (map questionId ?S) \<longleftrightarrow> q \<in> set ?S"
    proof
      assume "questionId q \<in> set (map questionId ?S)"
      then have "questionId q \<in> questionId ` set ?S" by (simp only: set_map)
      then obtain r where r: "r \<in> set ?S" "questionId r = questionId q" by (elim imageE) simp
      with sub q inj have "r = q" by (meson inj_onD subsetD)
      with r show "q \<in> set ?S" by simp
    qed auto
    also have "\<dots> \<longleftrightarrow> list_ex (\<lambda>s. inSection (secId s) q) secs"
      using q by (auto simp: list_ex_iff)
    finally show ?thesis by simp
  qed
  have "filter (\<lambda>i. i \<notin> set (map questionId ?S)) (map questionId qs)
          = map questionId (filter (\<lambda>q. \<not> list_ex (\<lambda>s. inSection (secId s) q) secs) qs)"
    unfolding filter_map comp_def using mem by (auto intro!: arg_cong[where f = "map questionId"] filter_cong)
  with firstSeen_append[OF dids d] show ?thesis
    by (simp add: numberingOrder_def visitSequence_def specOrder_def)
qed

text \<open>
  For questions with pairwise different ids the renumbering changes nothing but the
  numbers; it gives every question one plus its place in the numbering order, which is the
  order of first visits when the sections are gone through in ascending order, each with
  its questions in list order, and then the whole list. The numbers are exactly 1 to n,
  none twice. When no question belongs to two sections, the numbering order is the order
  of the specification: the questions of the sections in ascending section order, then the
  questions that are in no section.
\<close>

lemma renumber_numbers_in_section_order:
  assumes "distinct (map questionId qs)"
  shows "renumberAllQuestions secs qs
           = map (\<lambda>q. q\<lparr>questionNo := 1 + int (position (questionId q) (numberingOrder secs qs))\<rparr>) qs
       \<and> set (map questionNo (renumberAllQuestions secs qs)) = {1..int (length qs)}
       \<and> distinct (map questionNo (renumberAllQuestions secs qs))
       \<and> (sectionsDisjoint secs qs \<longrightarrow>
             numberingOrder secs qs = map questionId (specOrder secs qs))"
proof -
  let ?ord = "numberingOrder secs qs"
  have r: "renumberAllQuestions secs qs
             = map (\<lambda>q. q\<lparr>questionNo := 1 + int (position (questionId q) ?ord)\<rparr>) qs"
    using renumber_numbered[OF assms, of secs] numbered_all[of qs ?ord]
    by (simp add: numberingOrder_set)
  have n: "map questionNo (renumberAllQuestions secs qs)
             = map (\<lambda>q. 1 + int (position (questionId q) ?ord)) qs"
    unfolding r by simp
  from numbers_of_permutation[OF assms numberingOrder_distinct numberingOrder_set, of secs]
  have "set (map questionNo (renumberAllQuestions secs qs)) = {1..int (length qs)}"
    and "distinct (map questionNo (renumberAllQuestions secs qs))"
    unfolding n by simp_all
  with r specOrder_ids[OF assms] show ?thesis
    by blast
qed

lemma renumber_example:
  "distinct (map questionId exampleQuestions)
   \<and> sectionsDisjoint exampleSections exampleQuestions
   \<and> map questionId (specOrder exampleSections exampleQuestions) = [''q2'', ''q4'', ''q1'', ''q3'']
   \<and> map questionId (renumberAllQuestions exampleSections exampleQuestions)
       = [''q1'', ''q2'', ''q3'', ''q4'']
   \<and> map questionNo (renumberAllQuestions exampleSections exampleQuestions) = [3, 1, 4, 2]"
proof -
  have d: "distinct (map questionId exampleQuestions)"
    by (simp add: exampleQuestions_def exampleQuestion_def)
  have sd: "sectionsDisjoint exampleSections exampleQuestions"
    by (simp add: sectionsDisjoint_def exampleSections_def exampleQuestions_def exampleQuestion_def
        inSection_def noSectionId_def)
  have so: "map questionId (specOrder exampleSections exampleQuestions) = [''q2'', ''q4'', ''q1'', ''q3'']"
    by (simp add: specOrder_def exampleSections_def exampleQuestions_def exampleQuestion_def
        inSection_def noSectionId_def orderOrZero_def)
  note t = renumber_numbers_in_section_order[OF d, of exampleSections]
  from t sd so have ord: "numberingOrder exampleSections exampleQuestions = [''q2'', ''q4'', ''q1'', ''q3'']"
    by simp
  from t have r: "renumberAllQuestions exampleSections exampleQuestions
      = map (\<lambda>q. q\<lparr>questionNo := 1 + int (position (questionId q)
                 (numberingOrder exampleSections exampleQuestions))\<rparr>) exampleQuestions"
    by blast
  have "map questionId (renumberAllQuestions exampleSections exampleQuestions) = [''q1'', ''q2'', ''q3'', ''q4'']"
    unfolding r by (simp add: exampleQuestions_def exampleQuestion_def)
  moreover have "map questionNo (renumberAllQuestions exampleSections exampleQuestions) = [3, 1, 4, 2]"
    unfolding r ord by (simp add: exampleQuestions_def exampleQuestion_def position_def)
  ultimately show ?thesis
    using d sd so by blast
qed

text \<open>With an id that occurs twice the second question keeps the number it had.\<close>

lemma renumber_duplicate_ids:
  "map questionNo
     (renumberAllQuestions []
        [exampleQuestion ''q1'' ''text'' ''a'', exampleQuestion ''q1'' ''text'' ''a''])
   = [1, 7]"
  by (simp add: renumberAllQuestions_def numberRemainingQuestion_def assignNumber_def
      exampleQuestion_def Let_def)

section \<open>Properties of the agreement-scale questions\<close>

text \<open>The renumbering changes numbers only, whatever the ids are.\<close>

lemma assignNumber_framed:
  assumes "framed qs st" and "i < length (renumberedQuestions st)"
  shows "framed qs (assignNumber i qid st)"
proof -
  let ?xs = "renumberedQuestions st"
  have "map (questionNo_update (\<lambda>n. 0)) (?xs[i := (?xs ! i)\<lparr>questionNo := currentNumber st\<rparr>])
          = (map (questionNo_update (\<lambda>n. 0)) ?xs)[i := questionNo_update (\<lambda>n. 0) (?xs ! i)]"
    by (simp add: map_update)
  also have "\<dots> = map (questionNo_update (\<lambda>n. 0)) ?xs"
    using assms(2) by (metis list_update_id nth_map)
  finally show ?thesis
    using assms(1) by (simp add: framed_def assignNumber_def)
qed

lemma numberSection_framed: "framed qs st \<Longrightarrow> framed qs (numberSectionQuestion v st)"
  by (auto simp: numberSectionQuestion_def findIndex_Some_iff assignNumber_framed split: option.splits)

lemma fold_numberSection_framed: "framed qs st \<Longrightarrow> framed qs (fold numberSectionQuestion vs st)"
  by (induction vs arbitrary: st) (simp_all add: numberSection_framed)

lemma renumber_frame:
  "map (questionNo_update (\<lambda>n. 0)) (renumberAllQuestions secs qs) = map (questionNo_update (\<lambda>n. 0)) qs"
proof -
  have "framed qs \<lparr>currentNumber = 1, renumberedQuestions = qs, processedQuestionIds = {}\<rparr>"
    by (simp add: framed_def)
  from fold_numberSection_framed[OF this, of "visitSequence secs qs"] show ?thesis
    by (simp add: renumber_fold framed_def)
qed













text \<open>
  The function behind the controls does not guard the options itself: called for an
  agreement-scale question with the field options, which no control of the builder does,
  it replaces the fixed list.
\<close>

lemma updateQuestion_options_unguarded:
  "options (last (questions (updateQuestion ''q5'' (SetOptions (Some [''Yes'', ''No''])) exampleBuilder)))
     = Some [''Yes'', ''No'']
   \<and> questionType (last (questions
         (updateQuestion ''q5'' (SetOptions (Some [''Yes'', ''No''])) exampleBuilder))) = ''sls''"
  by (simp add: updateQuestion_def updatedQuestion_def exampleBuilder_def exampleQuestions_def
      exampleQuestion_def slsQuestion_def Let_def)

section \<open>Properties of the editing operations\<close>


lemma renumber_sections: "map sectionId (renumberAllQuestions secs qs) = map sectionId qs"
proof -
  have "map sectionId xs = map sectionId (map (questionNo_update (\<lambda>n. 0)) xs)" for xs :: "Question list"
    by simp
  with renumber_frame[of secs qs] show ?thesis by metis
qed









































text \<open>A drag within a section leaves the list of questions in the order it had.\<close>

lemma drag_within_section_keeps_order:
  "map questionId (questions (builderOp
       (DragEnd \<lparr>sourceSection = ''s2'', sourceIndex = 0, destination = Some (''s2'', 1)\<rparr>) exampleEdited))
   = [''q2'', ''q4'', ''q3'']"
  by code_simp

text \<open>
  What is asked of the ids cannot be dropped. An id of the clock that is given twice: the
  second question of that id keeps its number when a question before it is deleted.
\<close>

lemma repeated_clock_id:
  "map questionNo (questions (fold builderOp
      [AddQuestion ''t1'' None None, AddQuestion ''t2'' None None, AddQuestion ''t1'' None None,
       DeleteQuestion ''t2''] initialBuilder))
   = [1, 3]"
  by code_simp

text \<open>
  Two stored sections of one id: deleting that id leaves no section, and the numbers stay
  as they were with the two.
\<close>

lemma repeated_section_id:
  "sections (fold builderOp
      [FormLoaded ''1700000000000''
         (Some [storedQuestion ''b'' ''x'', storedQuestion ''a'' ''s''])
         (Some [\<lparr>secId = ''s'', title = ''One'', secName = None, secOrder = Some 0\<rparr>,
                \<lparr>secId = ''s'', title = ''Two'', secName = None, secOrder = Some 1\<rparr>]),
       DeleteSection ''s''] initialBuilder) = []
   \<and> map questionNo (questions (fold builderOp
      [FormLoaded ''1700000000000''
         (Some [storedQuestion ''b'' ''x'', storedQuestion ''a'' ''s''])
         (Some [\<lparr>secId = ''s'', title = ''One'', secName = None, secOrder = Some 0\<rparr>,
                \<lparr>secId = ''s'', title = ''Two'', secName = None, secOrder = Some 1\<rparr>]),
       DeleteSection ''s''] initialBuilder))
     = [2, 1]"
  by code_simp

end
